theory Spec2Isabelle
  imports Main
begin

section \<open>The client registry of pybullet.c\<close>

text \<open>
  The connection layer of \<^verbatim>\<open>examples/pybullet/pybullet.c\<close> keeps three file-level
  globals: the table of client handles \<^verbatim>\<open>sPhysicsClients1\<close>, the table of connection
  methods \<^verbatim>\<open>sPhysicsClientsGUI\<close> and the counter \<^verbatim>\<open>sNumPhysicsClients\<close>. Every
  function below takes the globals as a record and returns them updated, together with
  the list of calls it made into the physics client C-API, in the order it made them.

  The C-API itself (\<^verbatim>\<open>b3CanSubmitCommand\<close>, \<^verbatim>\<open>b3DisconnectSharedMemory\<close>,
  \<^verbatim>\<open>b3SubmitClientCommandAndWaitStatus\<close>, the transport constructors) is outside this
  file: what it answers during one call is an argument of the model, so every theorem
  holds for every behaviour of the transports. Argument parsing by
  \<^verbatim>\<open>PyArg_ParseTupleAndKeywords\<close> happens before anything modelled here; the functions
  take the parsed C \<^verbatim>\<open>int\<close>s. The counter is an unbounded integer (the C \<^verbatim>\<open>int\<close>
  would need about a thousand million failed handshakes to overflow).
\<close>

subsection \<open>Data\<close>

text \<open>A client handle is a C pointer; \<open>0\<close> is the null handle.\<close>

type_synonym b3PhysicsClientHandle = nat

definition MAX_PHYSICS_CLIENTS :: nat where
  "MAX_PHYSICS_CLIENTS = 1024"

text \<open>
  The enumerators of \<^verbatim>\<open>eCONNECT_METHOD\<close> are declared in SharedMemoryPublic.h, which is
  not among the sources here. They are given the values of that header; the theorems
  use only that they are pairwise distinct and different from 0.
\<close>

definition eCONNECT_GUI :: int where "eCONNECT_GUI = 1"
definition eCONNECT_DIRECT :: int where "eCONNECT_DIRECT = 2"
definition eCONNECT_SHARED_MEMORY :: int where "eCONNECT_SHARED_MEMORY = 3"
definition eCONNECT_UDP :: int where "eCONNECT_UDP = 4"
definition eCONNECT_TCP :: int where "eCONNECT_TCP = 5"
definition eCONNECT_GUI_SERVER :: int where "eCONNECT_GUI_SERVER = 7"
definition eCONNECT_GUI_MAIN_THREAD :: int where "eCONNECT_GUI_MAIN_THREAD = 8"
definition eCONNECT_SHARED_MEMORY_SERVER :: int where "eCONNECT_SHARED_MEMORY_SERVER = 9"
definition eCONNECT_DART :: int where "eCONNECT_DART = 10"
definition eCONNECT_MUJOCO :: int where "eCONNECT_MUJOCO = 11"
definition eCONNECT_GRPC :: int where "eCONNECT_GRPC = 12"
definition eCONNECT_PHYSX :: int where "eCONNECT_PHYSX = 13"
definition eCONNECT_SHARED_MEMORY_GUI :: int where "eCONNECT_SHARED_MEMORY_GUI = 14"

text \<open>
  The status tags that this part of the file compares against (the enumeration of the
  server statuses has many more members; they are \<open>CMD_OTHER_STATUS\<close> here).
\<close>

datatype status_type =
    CMD_SYNC_BODY_INFO_COMPLETED
  | CMD_SYNC_USER_DATA_COMPLETED
  | CMD_STEP_FORWARD_SIMULATION_COMPLETED
  | CMD_OTHER_STATUS nat

datatype command =
    SyncBodyInfoCommand
  | SyncUserDataCommand
  | StepSimulationCommand

text \<open>The calls into the C-API, as they appear in the trace of an operation.\<close>

datatype api_call =
    CreateAndConnect int
  | CanSubmitCommand b3PhysicsClientHandle
  | DisconnectSharedMemory b3PhysicsClientHandle
  | SubmitClientCommandAndWaitStatus b3PhysicsClientHandle command

text \<open>The two exception types of the module and the messages raised with them.\<close>

datatype bullet_error =
    ExceedingMaximumConnections
  | OnlyOneGUIConnection
  | GRPCNotEnabled
  | UDPNotEnabled
  | TCPNotEnabled
  | UnexpectedArgument

datatype py_exception =
    BulletError bullet_error
  | BulletNotConnectedError

text \<open>
  What a Python-facing function hands back: \<open>Raise e\<close> is \<^verbatim>\<open>return NULL\<close> with the
  exception \<open>e\<close> set, \<open>Return v\<close> is an ordinary return value, and
  \<open>ReturnPending v e\<close> is a value returned while an exception is still set (only the
  GRPC case of a build without GRPC does that).
\<close>

datatype 'a py_result =
    Raise py_exception
  | Return 'a
  | ReturnPending 'a py_exception

record registry =
  sPhysicsClients1 :: "b3PhysicsClientHandle list"
  sPhysicsClientsGUI :: "int list"
  sNumPhysicsClients :: int

definition initial_registry :: registry where
  "initial_registry =
     \<lparr> sPhysicsClients1 = replicate MAX_PHYSICS_CLIENTS 0,
       sPhysicsClientsGUI = replicate MAX_PHYSICS_CLIENTS 0,
       sNumPhysicsClients = 0 \<rparr>"

text \<open>Both tables are C arrays of \<^verbatim>\<open>MAX_PHYSICS_CLIENTS\<close> cells.\<close>

definition wf_registry :: "registry \<Rightarrow> bool" where
  "wf_registry r \<longleftrightarrow>
     length (sPhysicsClients1 r) = MAX_PHYSICS_CLIENTS \<and>
     length (sPhysicsClientsGUI r) = MAX_PHYSICS_CLIENTS"

text \<open>The three assignments that free a slot, and the two that fill one.\<close>

definition clear_slot :: "registry \<Rightarrow> nat \<Rightarrow> registry" where
  "clear_slot r i =
     r\<lparr> sPhysicsClients1 := (sPhysicsClients1 r)[i := 0],
        sPhysicsClientsGUI := (sPhysicsClientsGUI r)[i := 0] \<rparr>"

definition store_slot :: "registry \<Rightarrow> nat \<Rightarrow> b3PhysicsClientHandle \<Rightarrow> int \<Rightarrow> registry" where
  "store_slot r i sm method =
     r\<lparr> sPhysicsClients1 := (sPhysicsClients1 r)[i := sm],
        sPhysicsClientsGUI := (sPhysicsClientsGUI r)[i := method] \<rparr>"

subsection \<open>getPhysicsClient\<close>

text \<open>
  \<open>canSubmit\<close> is what \<^verbatim>\<open>b3CanSubmitCommand\<close> answers for the stored handle, should
  the function get as far as asking.
\<close>

definition getPhysicsClient ::
  "bool \<Rightarrow> registry \<Rightarrow> int \<Rightarrow> b3PhysicsClientHandle \<times> registry \<times> api_call list" where
  "getPhysicsClient canSubmit r physicsClientId =
     (if physicsClientId < 0 then (0, r, [])
      else if physicsClientId \<ge> int MAX_PHYSICS_CLIENTS then (0, r, [])
      else if sPhysicsClients1 r ! nat physicsClientId = 0 then (0, r, [])
      else
        let sm = sPhysicsClients1 r ! nat physicsClientId in
        if canSubmit then (sm, r, [CanSubmitCommand sm])
        else
          (0,
           (clear_slot r (nat physicsClientId))
             \<lparr> sNumPhysicsClients := sNumPhysicsClients r - 1 \<rparr>,
           [CanSubmitCommand sm, DisconnectSharedMemory sm]))"

subsection \<open>pybullet_stepSimulation\<close>

datatype step_value = AnalyticsData | PyNone

definition pybullet_stepSimulation ::
  "bool \<Rightarrow> bool \<Rightarrow> status_type \<Rightarrow> registry \<Rightarrow> int \<Rightarrow>
     step_value py_result \<times> registry \<times> api_call list" where
  "pybullet_stepSimulation canSubmit canSubmit2 statusType r physicsClientId =
     (case getPhysicsClient canSubmit r physicsClientId of (sm, r', tr) \<Rightarrow>
        if sm = 0 then (Raise BulletNotConnectedError, r', tr)
        else if canSubmit2 then
          (if statusType = CMD_STEP_FORWARD_SIMULATION_COMPLETED
           then (Return AnalyticsData, r',
                 tr @ [CanSubmitCommand sm,
                       SubmitClientCommandAndWaitStatus sm StepSimulationCommand])
           else (Return PyNone, r',
                 tr @ [CanSubmitCommand sm,
                       SubmitClientCommandAndWaitStatus sm StepSimulationCommand]))
        else (Return PyNone, r', tr @ [CanSubmitCommand sm]))"

subsection \<open>pybullet_connectPhysicsServer\<close>

text \<open>The compile-time switches that the function body depends on.\<close>

record build =
  BT_ENABLE_ENET :: bool
  BT_ENABLE_CLSOCKET :: bool
  BT_ENABLE_GRPC :: bool
  BT_ENABLE_DART :: bool
  BT_ENABLE_PHYSX :: bool
  BT_ENABLE_MUJOCO :: bool

text \<open>
  What the C-API answers during one connect: the handle the transport constructor
  returns (null when it could not connect), the answer of \<^verbatim>\<open>b3CanSubmitCommand\<close> on
  it, and the status tags of the two synchronisation commands.
\<close>

record connect_env =
  created :: b3PhysicsClientHandle
  can_submit :: bool
  body_info_status :: status_type
  user_data_status :: status_type

text \<open>The loop that looks for a GUI or GUI_SERVER entry, from index \<open>i\<close> on.\<close>

function gui_open_from :: "int list \<Rightarrow> nat \<Rightarrow> bool" where
  "gui_open_from gui i =
     (if i < MAX_PHYSICS_CLIENTS then
        (if gui ! i = eCONNECT_GUI \<or> gui ! i = eCONNECT_GUI_SERVER then True
         else gui_open_from gui (i + 1))
      else False)"
  by pat_completeness auto
termination
  by (relation "measure (\<lambda>(gui, i). MAX_PHYSICS_CLIENTS - i)") auto

declare gui_open_from.simps [simp del]

text \<open>The loop that looks for the first null handle, from index \<open>i\<close> on; \<open>-1\<close> if none.\<close>

function first_free_from :: "b3PhysicsClientHandle list \<Rightarrow> nat \<Rightarrow> int" where
  "first_free_from clients i =
     (if i < MAX_PHYSICS_CLIENTS then
        (if clients ! i = 0 then int i else first_free_from clients (i + 1))
      else -1)"
  by pat_completeness auto
termination
  by (relation "measure (\<lambda>(clients, i). MAX_PHYSICS_CLIENTS - i)") auto

declare first_free_from.simps [simp del]

text \<open>
  The \<^verbatim>\<open>switch (method)\<close>: \<open>Inl e\<close> where the case returns \<^verbatim>\<open>NULL\<close> at once,
  otherwise the handle, the exception left pending (if any) and the constructor call.
\<close>

definition connect_switch ::
  "build \<Rightarrow> int \<Rightarrow> b3PhysicsClientHandle \<Rightarrow>
     py_exception + (b3PhysicsClientHandle \<times> py_exception option \<times> api_call list)" where
  "connect_switch b method h =
     (if method = eCONNECT_GUI then Inr (h, None, [CreateAndConnect method])
      else if method = eCONNECT_GUI_MAIN_THREAD then Inr (h, None, [CreateAndConnect method])
      else if method = eCONNECT_GUI_SERVER then Inr (h, None, [CreateAndConnect method])
      else if method = eCONNECT_SHARED_MEMORY_SERVER then Inr (h, None, [CreateAndConnect method])
      else if method = eCONNECT_SHARED_MEMORY_GUI then Inr (h, None, [CreateAndConnect method])
      else if method = eCONNECT_DIRECT then Inr (h, None, [CreateAndConnect method])
      else if method = eCONNECT_DART \<and> BT_ENABLE_DART b then Inr (h, None, [CreateAndConnect method])
      else if method = eCONNECT_PHYSX \<and> BT_ENABLE_PHYSX b then Inr (h, None, [CreateAndConnect method])
      else if method = eCONNECT_MUJOCO \<and> BT_ENABLE_MUJOCO b then Inr (h, None, [CreateAndConnect method])
      else if method = eCONNECT_GRPC then
        (if BT_ENABLE_GRPC b then Inr (h, None, [CreateAndConnect method])
         else Inr (0, Some (BulletError GRPCNotEnabled), []))
      else if method = eCONNECT_SHARED_MEMORY then Inr (h, None, [CreateAndConnect method])
      else if method = eCONNECT_UDP then
        (if BT_ENABLE_ENET b then Inr (h, None, [CreateAndConnect method])
         else Inl (BulletError UDPNotEnabled))
      else if method = eCONNECT_TCP then
        (if BT_ENABLE_CLSOCKET b then Inr (h, None, [CreateAndConnect method])
         else Inl (BulletError TCPNotEnabled))
      else Inl (BulletError UnexpectedArgument))"

definition returning :: "py_exception option \<Rightarrow> 'a \<Rightarrow> 'a py_result" where
  "returning pending v = (case pending of None \<Rightarrow> Return v | Some e \<Rightarrow> ReturnPending v e)"

definition pybullet_connectPhysicsServer ::
  "build \<Rightarrow> connect_env \<Rightarrow> registry \<Rightarrow> int \<Rightarrow>
     int py_result \<times> registry \<times> api_call list" where
  "pybullet_connectPhysicsServer b env r method =
     (if sNumPhysicsClients r \<ge> int MAX_PHYSICS_CLIENTS
      then (Raise (BulletError ExceedingMaximumConnections), r, [])
      else if method = eCONNECT_GUI \<and> gui_open_from (sPhysicsClientsGUI r) 0
      then (Raise (BulletError OnlyOneGUIConnection), r, [])
      else
        case connect_switch b method (created env) of
          Inl e \<Rightarrow> (Raise e, r, [])
        | Inr (sm, pending, tr) \<Rightarrow>
            if sm = 0 then (returning pending (-1), r, tr)
            else if \<not> can_submit env
            then (returning pending (-1), r,
                  tr @ [CanSubmitCommand sm, DisconnectSharedMemory sm])
            else
              let freeIndex = first_free_from (sPhysicsClients1 r) 0 in
              if freeIndex < 0
              then (returning pending freeIndex, r, tr @ [CanSubmitCommand sm])
              else
                let r1 = (store_slot r (nat freeIndex) sm method)
                           \<lparr> sNumPhysicsClients := sNumPhysicsClients r + 1 \<rparr>;
                    tr1 = tr @ [CanSubmitCommand sm,
                                SubmitClientCommandAndWaitStatus sm SyncBodyInfoCommand]
                in
                if body_info_status env \<noteq> CMD_SYNC_BODY_INFO_COMPLETED
                then (Return (-1),
                      (clear_slot r1 (nat freeIndex))
                        \<lparr> sNumPhysicsClients := sNumPhysicsClients r1 + 1 \<rparr>,
                      tr1 @ [DisconnectSharedMemory sm])
                else
                  let tr2 = tr1 @ [SubmitClientCommandAndWaitStatus sm SyncUserDataCommand]
                  in
                  if user_data_status env \<noteq> CMD_SYNC_USER_DATA_COMPLETED
                  then (Return (-1),
                        (clear_slot r1 (nat freeIndex))
                          \<lparr> sNumPhysicsClients := sNumPhysicsClients r1 + 1 \<rparr>,
                        tr2 @ [DisconnectSharedMemory sm])
                  else (returning pending freeIndex, r1, tr2))"

text \<open>
  Everything a \<^verbatim>\<open>connect\<close> needs, apart from a free slot, to register the new
  connection: the counter below the limit, no refusal by the GUI test, a method whose
  case of the \<^verbatim>\<open>switch\<close> calls a constructor, a transport that opened and answers the
  probe, and both synchronisation statuses as expected.
\<close>

definition connect_unobstructed :: "build \<Rightarrow> connect_env \<Rightarrow> registry \<Rightarrow> int \<Rightarrow> bool" where
  "connect_unobstructed b env r method \<longleftrightarrow>
     sNumPhysicsClients r < int MAX_PHYSICS_CLIENTS \<and>
     \<not> (method = eCONNECT_GUI \<and> gui_open_from (sPhysicsClientsGUI r) 0) \<and>
     connect_switch b method (created env) =
       Inr (created env, None, [CreateAndConnect method]) \<and>
     created env \<noteq> 0 \<and> can_submit env \<and>
     body_info_status env = CMD_SYNC_BODY_INFO_COMPLETED \<and>
     user_data_status env = CMD_SYNC_USER_DATA_COMPLETED"

subsection \<open>pybullet_disconnectPhysicsServer\<close>

definition pybullet_disconnectPhysicsServer ::
  "bool \<Rightarrow> registry \<Rightarrow> int \<Rightarrow> unit py_result \<times> registry \<times> api_call list" where
  "pybullet_disconnectPhysicsServer canSubmit r physicsClientId =
     (case getPhysicsClient canSubmit r physicsClientId of (sm, r', tr) \<Rightarrow>
        if sm = 0 then (Raise BulletNotConnectedError, r', tr)
        else
          (Return (),
           (clear_slot r' (nat physicsClientId))
             \<lparr> sNumPhysicsClients := sNumPhysicsClients r' - 1 \<rparr>,
           tr @ [DisconnectSharedMemory sm]))"

subsection \<open>pybullet_isConnected and pybullet_getConnectionInfo\<close>

definition pybullet_isConnected ::
  "bool \<Rightarrow> bool \<Rightarrow> registry \<Rightarrow> int \<Rightarrow> int py_result \<times> registry \<times> api_call list" where
  "pybullet_isConnected canSubmit canSubmit2 r physicsClientId =
     (case getPhysicsClient canSubmit r physicsClientId of (sm, r', tr) \<Rightarrow>
        if sm \<noteq> 0 then
          (if canSubmit2 then (Return 1, r', tr @ [CanSubmitCommand sm])
           else (Return 0, r', tr @ [CanSubmitCommand sm]))
        else (Return 0, r', tr))"

text \<open>The returned dictionary is the pair (isConnected, connectionMethod).\<close>

definition pybullet_getConnectionInfo ::
  "bool \<Rightarrow> bool \<Rightarrow> registry \<Rightarrow> int \<Rightarrow>
     (int \<times> int) py_result \<times> registry \<times> api_call list" where
  "pybullet_getConnectionInfo canSubmit canSubmit2 r physicsClientId =
     (case getPhysicsClient canSubmit r physicsClientId of (sm, r', tr) \<Rightarrow>
        if sm \<noteq> 0 then
          (if canSubmit2
           then (Return (1, sPhysicsClientsGUI r' ! nat physicsClientId), r',
                 tr @ [CanSubmitCommand sm])
           else (Return (0, 0), r', tr @ [CanSubmitCommand sm]))
        else (Return (0, 0), r', tr))"

subsection \<open>pybullet_getAPIVersion\<close>

text \<open>
  The function takes a \<^verbatim>\<open>physicsClientId\<close> and never looks it up. The macro
  \<^verbatim>\<open>SHARED_MEMORY_MAGIC_NUMBER\<close> that it returns is defined in SharedMemoryPublic.h, which
  is not among the sources here, so its value is an argument.
\<close>

definition pybullet_getAPIVersion ::
  "int \<Rightarrow> registry \<Rightarrow> int \<Rightarrow> int py_result \<times> registry \<times> api_call list" where
  "pybullet_getAPIVersion SHARED_MEMORY_MAGIC_NUMBER r physicsClientId =
     (Return SHARED_MEMORY_MAGIC_NUMBER, r, [])"

subsection \<open>b3pybulletExitFunc\<close>

text \<open>
  Registered with \<^verbatim>\<open>Py_AtExit\<close>: when the interpreter shuts down, every handle still
  in the table is disconnected. The loop clears the handle and decrements the counter;
  it does not touch the method table. \<open>exit_from r i\<close> is the loop from index \<open>i\<close> on.
\<close>

function exit_from :: "registry \<Rightarrow> nat \<Rightarrow> registry \<times> api_call list" where
  "exit_from r i =
     (if i < MAX_PHYSICS_CLIENTS then
        (if sPhysicsClients1 r ! i \<noteq> 0 then
           (case exit_from
                   (r\<lparr> sPhysicsClients1 := (sPhysicsClients1 r)[i := 0],
                      sNumPhysicsClients := sNumPhysicsClients r - 1 \<rparr>) (i + 1)
            of (r', tr) \<Rightarrow> (r', DisconnectSharedMemory (sPhysicsClients1 r ! i) # tr))
         else exit_from r (i + 1))
      else (r, []))"
  by pat_completeness auto
termination
  by (relation "measure (\<lambda>(r, i). MAX_PHYSICS_CLIENTS - i)") auto

declare exit_from.simps [simp del]

definition b3pybulletExitFunc :: "registry \<Rightarrow> registry \<times> api_call list" where
  "b3pybulletExitFunc r = exit_from r 0"

subsection \<open>Sequences of calls\<close>

text \<open>One call from Python, with what the C-API answers during it.\<close>

datatype py_call =
    Connect build connect_env int
  | Disconnect bool int
  | StepSimulation bool bool status_type int
  | IsConnected bool bool int
  | GetConnectionInfo bool bool int

fun exec :: "registry \<Rightarrow> py_call \<Rightarrow> registry" where
  "exec r (Connect b env method) = fst (snd (pybullet_connectPhysicsServer b env r method))"
| "exec r (Disconnect c i) = fst (snd (pybullet_disconnectPhysicsServer c r i))"
| "exec r (StepSimulation c c2 s i) = fst (snd (pybullet_stepSimulation c c2 s r i))"
| "exec r (IsConnected c c2 i) = fst (snd (pybullet_isConnected c c2 r i))"
| "exec r (GetConnectionInfo c c2 i) = fst (snd (pybullet_getConnectionInfo c c2 r i))"

definition run :: "py_call list \<Rightarrow> registry" where
  "run calls = foldl exec initial_registry calls"

text \<open>The occupied slots of the table.\<close>

definition occupied :: "registry \<Rightarrow> int \<Rightarrow> bool" where
  "occupied r i \<longleftrightarrow>
     0 \<le> i \<and> i < int MAX_PHYSICS_CLIENTS \<and> sPhysicsClients1 r ! nat i \<noteq> 0"

definition num_occupied :: "registry \<Rightarrow> nat" where
  "num_occupied r = length (filter (\<lambda>sm. sm \<noteq> 0) (sPhysicsClients1 r))"

text \<open>
  The invariant of the registries that sequences of calls reach: both tables have their
  size, and the counter is at least the number of occupied slots.
\<close>

definition registry_inv :: "registry \<Rightarrow> bool" where
  "registry_inv r \<longleftrightarrow> wf_registry r \<and> int (num_occupied r) \<le> sNumPhysicsClients r"

text \<open>The registries in which exactly the first \<open>n\<close> slots are occupied.\<close>

definition filled_upto :: "nat \<Rightarrow> registry \<Rightarrow> bool" where
  "filled_upto n r \<longleftrightarrow>
     wf_registry r \<and> sNumPhysicsClients r = int n \<and>
     list_all (\<lambda>sm. sm \<noteq> 0) (take n (sPhysicsClients1 r)) \<and>
     list_all (\<lambda>sm. sm = 0) (drop n (sPhysicsClients1 r))"

text \<open>The number of cells of the method table that hold \<^verbatim>\<open>eCONNECT_GUI\<close>.\<close>

definition num_gui :: "registry \<Rightarrow> nat" where
  "num_gui r = length (filter (\<lambda>method. method = eCONNECT_GUI) (sPhysicsClientsGUI r))"

subsection \<open>Concrete inputs used in the examples\<close>

text \<open>A build with the UDP and TCP transports, and a C-API that answers every step well.\<close>

definition stock_build :: build where
  "stock_build =
     \<lparr> BT_ENABLE_ENET = True, BT_ENABLE_CLSOCKET = True, BT_ENABLE_GRPC = False,
       BT_ENABLE_DART = False, BT_ENABLE_PHYSX = False, BT_ENABLE_MUJOCO = False \<rparr>"

definition handshake_ok :: "b3PhysicsClientHandle \<Rightarrow> connect_env" where
  "handshake_ok h =
     \<lparr> created = h, can_submit = True,
       body_info_status = CMD_SYNC_BODY_INFO_COMPLETED,
       user_data_status = CMD_SYNC_USER_DATA_COMPLETED \<rparr>"

subsection \<open>Basic facts\<close>

lemmas eCONNECT_defs =
  eCONNECT_GUI_def eCONNECT_DIRECT_def eCONNECT_SHARED_MEMORY_def eCONNECT_UDP_def
  eCONNECT_TCP_def eCONNECT_GUI_SERVER_def eCONNECT_GUI_MAIN_THREAD_def
  eCONNECT_SHARED_MEMORY_SERVER_def eCONNECT_DART_def eCONNECT_MUJOCO_def
  eCONNECT_GRPC_def eCONNECT_PHYSX_def eCONNECT_SHARED_MEMORY_GUI_def


subsection \<open>The two search loops\<close>

lemma MAX_pos: "0 < MAX_PHYSICS_CLIENTS" by (simp add: MAX_PHYSICS_CLIENTS_def)

lemma first_free_from_hit:
  "i < MAX_PHYSICS_CLIENTS \<Longrightarrow> clients ! i = 0 \<Longrightarrow> first_free_from clients i = int i"
  by (subst first_free_from.simps) simp

lemma first_free_from_skip:
  "i < MAX_PHYSICS_CLIENTS \<Longrightarrow> clients ! i \<noteq> 0 \<Longrightarrow>
     first_free_from clients i = first_free_from clients (i + 1)"
  by (subst first_free_from.simps) simp

lemma first_free_from_end:
  "\<not> i < MAX_PHYSICS_CLIENTS \<Longrightarrow> first_free_from clients i = -1"
  by (subst first_free_from.simps) simp

lemma first_free_from_spec:
  "(first_free_from clients i = -1 \<and> (\<forall>j. i \<le> j \<and> j < MAX_PHYSICS_CLIENTS \<longrightarrow> clients ! j \<noteq> 0)) \<or>
   (\<exists>k. first_free_from clients i = int k \<and> i \<le> k \<and> k < MAX_PHYSICS_CLIENTS \<and> clients ! k = 0 \<and>
        (\<forall>j. i \<le> j \<and> j < k \<longrightarrow> clients ! j \<noteq> 0))"
proof (induction clients i rule: first_free_from.induct)
  case (1 clients i)
  show ?case
  proof (cases "i < MAX_PHYSICS_CLIENTS")
    case False
    then show ?thesis by (simp add: first_free_from_end)
  next
    case inr: True
    show ?thesis
    proof (cases "clients ! i = 0")
      case True
      with inr show ?thesis by (auto simp: first_free_from_hit)
    next
      case False
      note IH = "1.IH"[OF inr False]
      have eq: "first_free_from clients i = first_free_from clients (i + 1)"
        using inr False by (rule first_free_from_skip)
      from IH show ?thesis
      proof
        assume a: "first_free_from clients (i + 1) = - 1 \<and>
          (\<forall>j. i + 1 \<le> j \<and> j < MAX_PHYSICS_CLIENTS \<longrightarrow> clients ! j \<noteq> 0)"
        have "\<forall>j. i \<le> j \<and> j < MAX_PHYSICS_CLIENTS \<longrightarrow> clients ! j \<noteq> 0"
        proof (intro allI impI)
          fix j assume "i \<le> j \<and> j < MAX_PHYSICS_CLIENTS"
          then show "clients ! j \<noteq> 0" using a False by (cases "j = i") auto
        qed
        with a eq show ?thesis by simp
      next
        assume "\<exists>k. first_free_from clients (i + 1) = int k \<and> i + 1 \<le> k \<and>
          k < MAX_PHYSICS_CLIENTS \<and> clients ! k = 0 \<and> (\<forall>j. i + 1 \<le> j \<and> j < k \<longrightarrow> clients ! j \<noteq> 0)"
        then obtain k where k: "first_free_from clients (i + 1) = int k" "i + 1 \<le> k"
          "k < MAX_PHYSICS_CLIENTS" "clients ! k = 0" "\<forall>j. i + 1 \<le> j \<and> j < k \<longrightarrow> clients ! j \<noteq> 0"
          by blast
        have "\<forall>j. i \<le> j \<and> j < k \<longrightarrow> clients ! j \<noteq> 0"
        proof (intro allI impI)
          fix j assume "i \<le> j \<and> j < k"
          then show "clients ! j \<noteq> 0" using k(5) False by (cases "j = i") auto
        qed
        with k eq show ?thesis by auto
      qed
    qed
  qed
qed

lemma gui_open_from_iff:
  "gui_open_from gui i \<longleftrightarrow>
     (\<exists>j. i \<le> j \<and> j < MAX_PHYSICS_CLIENTS \<and> (gui ! j = eCONNECT_GUI \<or> gui ! j = eCONNECT_GUI_SERVER))"
proof (induction gui i rule: gui_open_from.induct)
  case (1 gui i)
  show ?case
  proof (cases "i < MAX_PHYSICS_CLIENTS")
    case False
    then show ?thesis by (subst gui_open_from.simps) auto
  next
    case inr: True
    show ?thesis
    proof (cases "gui ! i = eCONNECT_GUI \<or> gui ! i = eCONNECT_GUI_SERVER")
      case True
      with inr show ?thesis by (subst gui_open_from.simps) auto
    next
      case False
      have "gui_open_from gui i = gui_open_from gui (i + 1)"
        using inr False by (subst gui_open_from.simps) simp
      also have "\<dots> \<longleftrightarrow> (\<exists>j. i + 1 \<le> j \<and> j < MAX_PHYSICS_CLIENTS \<and>
           (gui ! j = eCONNECT_GUI \<or> gui ! j = eCONNECT_GUI_SERVER))"
        using "1.IH"[OF inr False] .
      also have "\<dots> \<longleftrightarrow> (\<exists>j. i \<le> j \<and> j < MAX_PHYSICS_CLIENTS \<and>
           (gui ! j = eCONNECT_GUI \<or> gui ! j = eCONNECT_GUI_SERVER))"
      proof
        assume "\<exists>j. i + 1 \<le> j \<and> j < MAX_PHYSICS_CLIENTS \<and>
           (gui ! j = eCONNECT_GUI \<or> gui ! j = eCONNECT_GUI_SERVER)"
        then obtain j where j: "i + 1 \<le> j" "j < MAX_PHYSICS_CLIENTS"
          "gui ! j = eCONNECT_GUI \<or> gui ! j = eCONNECT_GUI_SERVER" by blast
        from j(1) have "i \<le> j" by simp
        with j(2,3) show "\<exists>j. i \<le> j \<and> j < MAX_PHYSICS_CLIENTS \<and>
           (gui ! j = eCONNECT_GUI \<or> gui ! j = eCONNECT_GUI_SERVER)" by blast
      next
        assume "\<exists>j. i \<le> j \<and> j < MAX_PHYSICS_CLIENTS \<and>
           (gui ! j = eCONNECT_GUI \<or> gui ! j = eCONNECT_GUI_SERVER)"
        then obtain j where j: "i \<le> j" "j < MAX_PHYSICS_CLIENTS"
          "gui ! j = eCONNECT_GUI \<or> gui ! j = eCONNECT_GUI_SERVER" by blast
        with False have "j \<noteq> i" by auto
        with j(1) have "i + 1 \<le> j" by simp
        with j(2,3) show "\<exists>j. i + 1 \<le> j \<and> j < MAX_PHYSICS_CLIENTS \<and>
           (gui ! j = eCONNECT_GUI \<or> gui ! j = eCONNECT_GUI_SERVER)" by blast
      qed
      finally show ?thesis .
    qed
  qed
qed

lemma length_filter_update:
  "i < length xs \<Longrightarrow>
     length (filter P (xs[i := v])) + (if P (xs ! i) then 1 else 0) =
     length (filter P xs) + (if P v then 1 else 0)"
proof (induction xs arbitrary: i)
  case Nil
  then show ?case by simp
next
  case (Cons x xs)
  then show ?case by (cases i) auto
qed

subsection \<open>The lookup and the operations built on it\<close>

lemma wf_clear_slot: "wf_registry r \<Longrightarrow> wf_registry (clear_slot r i)"
  by (simp add: wf_registry_def clear_slot_def)

lemma wf_store_slot: "wf_registry r \<Longrightarrow> wf_registry (store_slot r i sm m)"
  by (simp add: wf_registry_def store_slot_def)

lemma wf_counter: "wf_registry (r\<lparr>sNumPhysicsClients := n\<rparr>) = wf_registry r"
  by (simp add: wf_registry_def)

lemma wf_initial: "wf_registry initial_registry"
  by (simp add: wf_registry_def initial_registry_def)

lemma getPhysicsClient_free:
  "\<not> occupied r i \<Longrightarrow> getPhysicsClient c r i = (0, r, [])"
  by (auto simp: getPhysicsClient_def occupied_def)

lemma getPhysicsClient_live:
  "occupied r i \<Longrightarrow>
     getPhysicsClient True r i =
       (sPhysicsClients1 r ! nat i, r, [CanSubmitCommand (sPhysicsClients1 r ! nat i)])"
  by (auto simp: getPhysicsClient_def occupied_def Let_def)

lemma getPhysicsClient_broken:
  "occupied r i \<Longrightarrow>
     getPhysicsClient False r i =
       (0, (clear_slot r (nat i))\<lparr>sNumPhysicsClients := sNumPhysicsClients r - 1\<rparr>,
        [CanSubmitCommand (sPhysicsClients1 r ! nat i),
         DisconnectSharedMemory (sPhysicsClients1 r ! nat i)])"
  by (auto simp: getPhysicsClient_def occupied_def Let_def)

lemma getPhysicsClient_handle:
  "fst (getPhysicsClient c r i) \<noteq> 0 \<longleftrightarrow> occupied r i \<and> c"
  by (cases c) (auto simp: getPhysicsClient_def occupied_def Let_def)

lemma occupied_clear_slot:
  "wf_registry r \<Longrightarrow> 0 \<le> i \<Longrightarrow> i < int MAX_PHYSICS_CLIENTS \<Longrightarrow>
     \<not> occupied ((clear_slot r (nat i))\<lparr>sNumPhysicsClients := n\<rparr>) i"
  by (simp add: occupied_def clear_slot_def wf_registry_def)

lemma disconnect_ok_iff:
  "fst (pybullet_disconnectPhysicsServer c r i) = Return () \<longleftrightarrow> occupied r i \<and> c"
  by (cases c; cases "occupied r i")
     (simp_all add: pybullet_disconnectPhysicsServer_def getPhysicsClient_free
        getPhysicsClient_live getPhysicsClient_broken, simp_all add: occupied_def)

lemma disconnect_ok_registry:
  "occupied r i \<Longrightarrow>
     fst (snd (pybullet_disconnectPhysicsServer True r i)) =
       (clear_slot r (nat i))\<lparr>sNumPhysicsClients := sNumPhysicsClients r - 1\<rparr>"
  by (simp add: pybullet_disconnectPhysicsServer_def getPhysicsClient_live, simp add: occupied_def)

lemma after_disconnect_free:
  assumes "wf_registry r" and "fst (pybullet_disconnectPhysicsServer c r i) = Return ()"
  shows "\<not> occupied (fst (snd (pybullet_disconnectPhysicsServer c r i))) i"
proof -
  from assms(2) have o: "occupied r i" and c: "c" by (simp_all add: disconnect_ok_iff)
  from o have "0 \<le> i" "i < int MAX_PHYSICS_CLIENTS" by (simp_all add: occupied_def)
  with assms(1) show ?thesis
    using o c by (simp add: disconnect_ok_registry occupied_clear_slot)
qed

lemma disconnect_free:
  "\<not> occupied r i \<Longrightarrow>
     pybullet_disconnectPhysicsServer c r i = (Raise BulletNotConnectedError, r, [])"
  by (simp add: pybullet_disconnectPhysicsServer_def getPhysicsClient_free)


lemma isConnected_free:
  "\<not> occupied r i \<Longrightarrow> pybullet_isConnected c c2 r i = (Return 0, r, [])"
  by (simp add: pybullet_isConnected_def getPhysicsClient_free)


text \<open>The registry after one successful DIRECT connection on the empty table.\<close>

lemma first_free_initial: "first_free_from (replicate MAX_PHYSICS_CLIENTS 0) 0 = 0"
  using first_free_from_hit [of 0 "replicate MAX_PHYSICS_CLIENTS 0"] MAX_pos by simp

lemma connect_direct_initial:
  "pybullet_connectPhysicsServer stock_build (handshake_ok h) initial_registry eCONNECT_DIRECT =
     (if h = 0 then (Return (-1), initial_registry, [CreateAndConnect eCONNECT_DIRECT])
      else (Return 0,
            \<lparr> sPhysicsClients1 = (replicate MAX_PHYSICS_CLIENTS 0)[0 := h],
              sPhysicsClientsGUI = (replicate MAX_PHYSICS_CLIENTS 0)[0 := eCONNECT_DIRECT],
              sNumPhysicsClients = 1 \<rparr>,
            [CreateAndConnect eCONNECT_DIRECT, CanSubmitCommand h,
             SubmitClientCommandAndWaitStatus h SyncBodyInfoCommand,
             SubmitClientCommandAndWaitStatus h SyncUserDataCommand]))"
  using MAX_pos
  by (simp add: pybullet_connectPhysicsServer_def connect_switch_def initial_registry_def
      handshake_ok_def eCONNECT_defs returning_def first_free_initial store_slot_def
      Let_def stock_build_def)

lemma run_connect_direct:
  "run [Connect stock_build (handshake_ok (Suc h)) eCONNECT_DIRECT] =
     \<lparr> sPhysicsClients1 = (replicate MAX_PHYSICS_CLIENTS 0)[0 := Suc h],
       sPhysicsClientsGUI = (replicate MAX_PHYSICS_CLIENTS 0)[0 := eCONNECT_DIRECT],
       sNumPhysicsClients = 1 \<rparr>"
  by (simp add: run_def connect_direct_initial)

lemma occupied_run_connect_direct:
  "occupied (run [Connect stock_build (handshake_ok (Suc h)) eCONNECT_DIRECT]) 0"
  by (simp add: run_connect_direct occupied_def MAX_PHYSICS_CLIENTS_def)

lemma wf_run_connect_direct:
  "wf_registry (run [Connect stock_build (handshake_ok (Suc h)) eCONNECT_DIRECT])"
  by (simp add: run_connect_direct wf_registry_def)

subsection \<open>Eviction happens in the lookup only\<close>

lemma stepSimulation_registry:
  "fst (snd (pybullet_stepSimulation c c2 s r i)) = fst (snd (getPhysicsClient c r i))"
  by (simp add: pybullet_stepSimulation_def split: prod.splits)

lemma isConnected_registry:
  "fst (snd (pybullet_isConnected c c2 r i)) = fst (snd (getPhysicsClient c r i))"
  by (simp add: pybullet_isConnected_def split: prod.splits)

lemma getConnectionInfo_registry:
  "fst (snd (pybullet_getConnectionInfo c c2 r i)) = fst (snd (getPhysicsClient c r i))"
  by (simp add: pybullet_getConnectionInfo_def split: prod.splits)

lemma disconnect_raise_registry:
  "fst (pybullet_disconnectPhysicsServer c r i) \<noteq> Return () \<Longrightarrow>
     fst (snd (pybullet_disconnectPhysicsServer c r i)) = fst (snd (getPhysicsClient c r i))"
  by (simp add: pybullet_disconnectPhysicsServer_def split: prod.splits if_splits)

lemma connect_keeps_occupied:
  assumes "sPhysicsClients1 r ! j \<noteq> 0" and "j < MAX_PHYSICS_CLIENTS"
  shows "sPhysicsClients1 (fst (snd (pybullet_connectPhysicsServer b env r m))) ! j =
           sPhysicsClients1 r ! j \<and>
         sPhysicsClientsGUI (fst (snd (pybullet_connectPhysicsServer b env r m))) ! j =
           sPhysicsClientsGUI r ! j"
proof -
  let ?f = "first_free_from (sPhysicsClients1 r) 0"
  have ne: "0 \<le> ?f \<Longrightarrow> nat ?f \<noteq> j"
    using first_free_from_spec [of "sPhysicsClients1 r" 0] assms by auto
  show ?thesis
    using ne
    by (auto simp: pybullet_connectPhysicsServer_def Let_def store_slot_def clear_slot_def
        split: sum.splits prod.splits)
qed


lemma replicate_update_same: "(replicate n x)[i := x] = replicate n x"
  by (induction n arbitrary: i) (auto split: nat.splits)

lemma free_initial: "\<not> occupied initial_registry i"
  by (simp add: occupied_def initial_registry_def)

lemma evict_connected_direct:
  "(clear_slot (run [Connect stock_build (handshake_ok (Suc h)) eCONNECT_DIRECT]) 0)
     \<lparr>sNumPhysicsClients := 0\<rparr> = initial_registry"
  by (simp add: run_connect_direct clear_slot_def initial_registry_def replicate_update_same)

text \<open>
  C7. \<^verbatim>\<open>getPhysicsClient\<close> hands out the stored handle exactly when the id is in
  range, the slot is occupied and \<^verbatim>\<open>b3CanSubmitCommand\<close> succeeds. When the slot is
  occupied and the probe fails, it disconnects the handle, clears the slot in both
  tables (so the slot is free afterwards), decrements the counter and returns null.
  Nothing else evicts: \<^verbatim>\<open>stepSimulation\<close>, \<^verbatim>\<open>isConnected\<close>,
  \<^verbatim>\<open>getConnectionInfo\<close> and a failing \<^verbatim>\<open>disconnect\<close> leave the registry as their
  call of \<^verbatim>\<open>getPhysicsClient\<close> left it, and \<^verbatim>\<open>connect\<close> never touches a slot that
  was occupied.
\<close>

theorem getPhysicsClient_resolves_or_evicts:
  "(fst (getPhysicsClient c r i) \<noteq> 0 \<longleftrightarrow> occupied r i \<and> c) \<and>
   (occupied r i \<and> c \<longrightarrow>
      getPhysicsClient c r i =
        (sPhysicsClients1 r ! nat i, r, [CanSubmitCommand (sPhysicsClients1 r ! nat i)])) \<and>
   (occupied r i \<and> \<not> c \<longrightarrow>
      getPhysicsClient c r i =
        (0, (clear_slot r (nat i))\<lparr>sNumPhysicsClients := sNumPhysicsClients r - 1\<rparr>,
         [CanSubmitCommand (sPhysicsClients1 r ! nat i),
          DisconnectSharedMemory (sPhysicsClients1 r ! nat i)])) \<and>
   (occupied r i \<and> \<not> c \<and> wf_registry r \<longrightarrow>
      \<not> occupied (fst (snd (getPhysicsClient c r i))) i) \<and>
   (\<not> occupied r i \<longrightarrow> getPhysicsClient c r i = (0, r, [])) \<and>
   fst (snd (pybullet_stepSimulation c c2 s r i)) = fst (snd (getPhysicsClient c r i)) \<and>
   fst (snd (pybullet_isConnected c c2 r i)) = fst (snd (getPhysicsClient c r i)) \<and>
   fst (snd (pybullet_getConnectionInfo c c2 r i)) = fst (snd (getPhysicsClient c r i)) \<and>
   (fst (pybullet_disconnectPhysicsServer c r i) \<noteq> Return () \<longrightarrow>
      fst (snd (pybullet_disconnectPhysicsServer c r i)) = fst (snd (getPhysicsClient c r i))) \<and>
   (\<forall>j. j < MAX_PHYSICS_CLIENTS \<and> sPhysicsClients1 r ! j \<noteq> 0 \<longrightarrow>
      sPhysicsClients1 (fst (snd (pybullet_connectPhysicsServer b env r m))) ! j =
        sPhysicsClients1 r ! j)"
proof (intro conjI impI allI)
  show "fst (getPhysicsClient c r i) \<noteq> 0 \<longleftrightarrow> occupied r i \<and> c"
    by (rule getPhysicsClient_handle)
next
  assume "occupied r i \<and> c"
  then show "getPhysicsClient c r i =
      (sPhysicsClients1 r ! nat i, r, [CanSubmitCommand (sPhysicsClients1 r ! nat i)])"
    by (simp add: getPhysicsClient_live)
next
  assume "occupied r i \<and> \<not> c"
  then show "getPhysicsClient c r i =
      (0, (clear_slot r (nat i))\<lparr>sNumPhysicsClients := sNumPhysicsClients r - 1\<rparr>,
       [CanSubmitCommand (sPhysicsClients1 r ! nat i),
        DisconnectSharedMemory (sPhysicsClients1 r ! nat i)])"
    by (simp add: getPhysicsClient_broken)
next
  assume a: "occupied r i \<and> \<not> c \<and> wf_registry r"
  then have "0 \<le> i" "i < int MAX_PHYSICS_CLIENTS" by (simp_all add: occupied_def)
  with a show "\<not> occupied (fst (snd (getPhysicsClient c r i))) i"
    by (simp add: getPhysicsClient_broken occupied_clear_slot)
next
  assume "\<not> occupied r i"
  then show "getPhysicsClient c r i = (0, r, [])" by (rule getPhysicsClient_free)
next
  show "fst (snd (pybullet_stepSimulation c c2 s r i)) = fst (snd (getPhysicsClient c r i))"
    by (rule stepSimulation_registry)
next
  show "fst (snd (pybullet_isConnected c c2 r i)) = fst (snd (getPhysicsClient c r i))"
    by (rule isConnected_registry)
next
  show "fst (snd (pybullet_getConnectionInfo c c2 r i)) = fst (snd (getPhysicsClient c r i))"
    by (rule getConnectionInfo_registry)
next
  assume "fst (pybullet_disconnectPhysicsServer c r i) \<noteq> Return ()"
  then show "fst (snd (pybullet_disconnectPhysicsServer c r i)) =
      fst (snd (getPhysicsClient c r i))"
    by (rule disconnect_raise_registry)
next
  fix j
  assume "j < MAX_PHYSICS_CLIENTS \<and> sPhysicsClients1 r ! j \<noteq> 0"
  then show "sPhysicsClients1 (fst (snd (pybullet_connectPhysicsServer b env r m))) ! j =
      sPhysicsClients1 r ! j"
    using connect_keeps_occupied [of r j b env m] by simp
qed

theorem getPhysicsClient_resolves_or_evicts_witness:
  "occupied (run [Connect stock_build (handshake_ok 1) eCONNECT_DIRECT]) 0 \<and>
   wf_registry (run [Connect stock_build (handshake_ok 1) eCONNECT_DIRECT]) \<and>
   \<not> occupied (run [Connect stock_build (handshake_ok 1) eCONNECT_DIRECT]) 1 \<and>
   getPhysicsClient True (run [Connect stock_build (handshake_ok 1) eCONNECT_DIRECT]) 0 =
     (1, run [Connect stock_build (handshake_ok 1) eCONNECT_DIRECT], [CanSubmitCommand 1]) \<and>
   getPhysicsClient False (run [Connect stock_build (handshake_ok 1) eCONNECT_DIRECT]) 0 =
     (0, initial_registry, [CanSubmitCommand 1, DisconnectSharedMemory 1]) \<and>
   \<not> occupied initial_registry 0 \<and>
   getPhysicsClient True (run [Connect stock_build (handshake_ok 1) eCONNECT_DIRECT]) 1 =
     (0, run [Connect stock_build (handshake_ok 1) eCONNECT_DIRECT], [])"
proof -
  let ?r = "run [Connect stock_build (handshake_ok 1) eCONNECT_DIRECT]"
  have o: "occupied ?r 0" using occupied_run_connect_direct [of 0] by simp
  have w: "wf_registry ?r" using wf_run_connect_direct [of 0] by simp
  have n: "\<not> occupied ?r 1"
    using run_connect_direct [of 0] by (simp add: occupied_def MAX_PHYSICS_CLIENTS_def)
  have e: "(clear_slot ?r 0)\<lparr>sNumPhysicsClients := sNumPhysicsClients ?r - 1\<rparr> = initial_registry"
    using evict_connected_direct [of 0] run_connect_direct [of 0] by simp
  have v: "sPhysicsClients1 ?r ! 0 = 1"
    using run_connect_direct [of 0] by (simp add: MAX_PHYSICS_CLIENTS_def)
  show ?thesis
    using o w n e v free_initial [of 0]
      getPhysicsClient_resolves_or_evicts [of True ?r 0]
      getPhysicsClient_resolves_or_evicts [of False ?r 0]
      getPhysicsClient_resolves_or_evicts [of True ?r 1]
    by simp
qed

subsection \<open>Operations on an id that does not resolve\<close>

lemma isConnected_value:
  "fst (pybullet_isConnected c c2 r i) = Return (if occupied r i \<and> c \<and> c2 then 1 else 0)"
  by (cases c; cases "occupied r i")
     (simp_all add: pybullet_isConnected_def getPhysicsClient_free getPhysicsClient_live
        getPhysicsClient_broken, simp_all add: occupied_def)

lemma getConnectionInfo_value:
  "fst (pybullet_getConnectionInfo c c2 r i) =
     Return (if occupied r i \<and> c \<and> c2 then (1, sPhysicsClientsGUI r ! nat i) else (0, 0))"
  by (cases c; cases "occupied r i")
     (simp_all add: pybullet_getConnectionInfo_def getPhysicsClient_free getPhysicsClient_live
        getPhysicsClient_broken, simp_all add: occupied_def)

lemma stepSimulation_raises:
  "\<not> (occupied r i \<and> c) \<Longrightarrow>
     fst (pybullet_stepSimulation c c2 s r i) = Raise BulletNotConnectedError"
  by (cases c; cases "occupied r i")
     (simp_all add: pybullet_stepSimulation_def getPhysicsClient_free getPhysicsClient_broken)

lemma disconnect_raises:
  "\<not> (occupied r i \<and> c) \<Longrightarrow>
     fst (pybullet_disconnectPhysicsServer c r i) = Raise BulletNotConnectedError"
  by (cases c; cases "occupied r i")
     (simp_all add: pybullet_disconnectPhysicsServer_def getPhysicsClient_free
        getPhysicsClient_broken)

text \<open>
  C10, as stated, fails: \<^verbatim>\<open>isConnected\<close> and \<^verbatim>\<open>getConnectionInfo\<close> are not the only
  operations with a \<^verbatim>\<open>physicsClientId\<close> that do not raise the not-connected error.
  On the empty registry \<^verbatim>\<open>getAPIVersion(physicsClientId=0)\<close> returns the version
  number (here 201908110; the value plays no role), as it does for every id.
\<close>

theorem getAPIVersion_not_connected_counterexample:
  "fst (getPhysicsClient True initial_registry 0) = 0 \<and>
   fst (pybullet_isConnected True True initial_registry 0) = Return 0 \<and>
   fst (pybullet_getAPIVersion 201908110 initial_registry 0) = Return 201908110 \<and>
   fst (pybullet_getAPIVersion 201908110 initial_registry 0) \<noteq> Raise BulletNotConnectedError"
  using free_initial [of 0]
  by (simp add: getPhysicsClient_free isConnected_free pybullet_getAPIVersion_def)

text \<open>
  C10, amended. For every id that argument parsing hands over (every C \<^verbatim>\<open>int\<close>),
  \<^verbatim>\<open>isConnected\<close> and \<^verbatim>\<open>getConnectionInfo\<close> never raise: they answer 1 (with the
  stored method) when the slot is occupied and both probes succeed, and otherwise 0 (and
  method 0), that is for a negative id, an id at or beyond \<^verbatim>\<open>MAX_PHYSICS_CLIENTS\<close>, a
  free slot or a failed probe. On the same ids the operations that raise on a null
  lookup, \<^verbatim>\<open>stepSimulation\<close> and \<^verbatim>\<open>disconnect\<close>, raise the not-connected error.
  They are not the only operations that do not raise it: \<^verbatim>\<open>getAPIVersion\<close> returns
  its number for every id, without a lookup.
\<close>

theorem introspection_never_raises:
  "(\<forall>e. fst (pybullet_isConnected c c2 r i) \<noteq> Raise e) \<and>
   (\<forall>e. fst (pybullet_getConnectionInfo c c2 r i) \<noteq> Raise e) \<and>
   (i < 0 \<or> int MAX_PHYSICS_CLIENTS \<le> i \<or> sPhysicsClients1 r ! nat i = 0 \<or> \<not> c \<longrightarrow>
      fst (pybullet_isConnected c c2 r i) = Return 0 \<and>
      fst (pybullet_getConnectionInfo c c2 r i) = Return (0, 0) \<and>
      fst (pybullet_stepSimulation c c2 s r i) = Raise BulletNotConnectedError) \<and>
   (0 \<le> i \<and> i < int MAX_PHYSICS_CLIENTS \<and> sPhysicsClients1 r ! nat i \<noteq> 0 \<and> c \<longrightarrow>
      fst (pybullet_isConnected c c2 r i) = Return (if c2 then 1 else 0) \<and>
      fst (pybullet_getConnectionInfo c c2 r i) =
        Return (if c2 then (1, sPhysicsClientsGUI r ! nat i) else (0, 0))) \<and>
   (i < 0 \<or> int MAX_PHYSICS_CLIENTS \<le> i \<or> sPhysicsClients1 r ! nat i = 0 \<or> \<not> c \<longrightarrow>
      fst (pybullet_disconnectPhysicsServer c r i) = Raise BulletNotConnectedError) \<and>
   pybullet_getAPIVersion v r i = (Return v, r, [])"
proof (intro conjI impI allI)
  fix e
  show "fst (pybullet_isConnected c c2 r i) \<noteq> Raise e"
    by (simp add: isConnected_value)
  show "fst (pybullet_getConnectionInfo c c2 r i) \<noteq> Raise e"
    by (simp add: getConnectionInfo_value)
next
  assume "i < 0 \<or> int MAX_PHYSICS_CLIENTS \<le> i \<or> sPhysicsClients1 r ! nat i = 0 \<or> \<not> c"
  then have n: "\<not> (occupied r i \<and> c)" by (auto simp: occupied_def)
  from n show "fst (pybullet_isConnected c c2 r i) = Return 0"
    by (auto simp: isConnected_value)
  from n show "fst (pybullet_getConnectionInfo c c2 r i) = Return (0, 0)"
    by (auto simp: getConnectionInfo_value)
  from n show "fst (pybullet_stepSimulation c c2 s r i) = Raise BulletNotConnectedError"
    by (rule stepSimulation_raises)
next
  assume "0 \<le> i \<and> i < int MAX_PHYSICS_CLIENTS \<and> sPhysicsClients1 r ! nat i \<noteq> 0 \<and> c"
  then have o: "occupied r i \<and> c" by (simp add: occupied_def)
  from o show "fst (pybullet_isConnected c c2 r i) = Return (if c2 then 1 else 0)"
    by (simp add: isConnected_value)
  from o show "fst (pybullet_getConnectionInfo c c2 r i) =
      Return (if c2 then (1, sPhysicsClientsGUI r ! nat i) else (0, 0))"
    by (simp add: getConnectionInfo_value)
next
  assume "i < 0 \<or> int MAX_PHYSICS_CLIENTS \<le> i \<or> sPhysicsClients1 r ! nat i = 0 \<or> \<not> c"
  then have "\<not> (occupied r i \<and> c)" by (auto simp: occupied_def)
  then show "fst (pybullet_disconnectPhysicsServer c r i) = Raise BulletNotConnectedError"
    by (rule disconnect_raises)
next
  show "pybullet_getAPIVersion v r i = (Return v, r, [])"
    by (simp add: pybullet_getAPIVersion_def)
qed

theorem introspection_never_raises_witness:
  "fst (pybullet_isConnected True True initial_registry (-1)) = Return 0 \<and>
   fst (pybullet_getConnectionInfo True True initial_registry (-1)) = Return (0, 0) \<and>
   fst (pybullet_stepSimulation True True CMD_STEP_FORWARD_SIMULATION_COMPLETED
          initial_registry (-1)) = Raise BulletNotConnectedError \<and>
   fst (pybullet_isConnected True True initial_registry 1024) = Return 0 \<and>
   fst (pybullet_getConnectionInfo True True initial_registry 1024) = Return (0, 0) \<and>
   fst (pybullet_isConnected True True initial_registry 0) = Return 0 \<and>
   fst (pybullet_getConnectionInfo True True initial_registry 0) = Return (0, 0) \<and>
   fst (pybullet_isConnected False True
          (run [Connect stock_build (handshake_ok 1) eCONNECT_DIRECT]) 0) = Return 0 \<and>
   fst (pybullet_isConnected True True
          (run [Connect stock_build (handshake_ok 1) eCONNECT_DIRECT]) 0) = Return 1 \<and>
   fst (pybullet_getConnectionInfo True True
          (run [Connect stock_build (handshake_ok 1) eCONNECT_DIRECT]) 0) =
     Return (1, eCONNECT_DIRECT) \<and>
   fst (pybullet_disconnectPhysicsServer True initial_registry (-1)) =
     Raise BulletNotConnectedError \<and>
   fst (pybullet_disconnectPhysicsServer True initial_registry 1024) =
     Raise BulletNotConnectedError \<and>
   fst (pybullet_disconnectPhysicsServer False
          (run [Connect stock_build (handshake_ok 1) eCONNECT_DIRECT]) 0) =
     Raise BulletNotConnectedError \<and>
   pybullet_getAPIVersion 201908110 initial_registry (-1) =
     (Return 201908110, initial_registry, [])"
proof -
  let ?r = "run [Connect stock_build (handshake_ok 1) eCONNECT_DIRECT]"
  let ?s = CMD_STEP_FORWARD_SIMULATION_COMPLETED
  have z: "sPhysicsClients1 initial_registry ! nat 0 = 0"
    by (simp add: initial_registry_def MAX_PHYSICS_CLIENTS_def)
  have v: "sPhysicsClients1 ?r ! nat 0 = 1" "sPhysicsClientsGUI ?r ! nat 0 = eCONNECT_DIRECT"
    using run_connect_direct [of 0] by (simp_all add: MAX_PHYSICS_CLIENTS_def)
  show ?thesis
    using z v
      introspection_never_raises [of True True initial_registry "-1" ?s 201908110]
      introspection_never_raises [of True True initial_registry 1024 ?s]
      introspection_never_raises [of True True initial_registry 0 ?s]
      introspection_never_raises [of False True ?r 0 ?s]
      introspection_never_raises [of True True ?r 0 ?s]
    by (simp add: MAX_PHYSICS_CLIENTS_def)
qed

text \<open>The registry after a successful \<^verbatim>\<open>disconnect\<close> of the only connection.\<close>

lemma disconnect_connected_direct:
  "pybullet_disconnectPhysicsServer True
     (run [Connect stock_build (handshake_ok (Suc h)) eCONNECT_DIRECT]) 0 =
     (Return (), initial_registry,
      [CanSubmitCommand (Suc h), DisconnectSharedMemory (Suc h)])"
proof -
  let ?r = "run [Connect stock_build (handshake_ok (Suc h)) eCONNECT_DIRECT]"
  have v: "sPhysicsClients1 ?r ! 0 = Suc h" "sNumPhysicsClients ?r = 1"
    by (simp_all add: run_connect_direct MAX_PHYSICS_CLIENTS_def)
  have "getPhysicsClient True ?r 0 = (Suc h, ?r, [CanSubmitCommand (Suc h)])"
    using getPhysicsClient_live [OF occupied_run_connect_direct, of h] v by simp
  then show ?thesis
    using v evict_connected_direct [of h]
    by (simp add: pybullet_disconnectPhysicsServer_def)
qed




text \<open>
  C3, as stated, fails: the second of two \<^verbatim>\<open>disconnect(0)\<close> calls raises the
  not-connected error, where the first returned \<^verbatim>\<open>None\<close>.
\<close>

theorem disconnect_twice_counterexample:
  "fst (pybullet_disconnectPhysicsServer True
          (run [Connect stock_build (handshake_ok 1) eCONNECT_DIRECT]) 0) = Return () \<and>
   fst (pybullet_disconnectPhysicsServer True
          (fst (snd (pybullet_disconnectPhysicsServer True
             (run [Connect stock_build (handshake_ok 1) eCONNECT_DIRECT]) 0))) 0) =
     Raise BulletNotConnectedError"
  using disconnect_connected_direct [of 0] free_initial [of 0]
  by (simp add: disconnect_free)

text \<open>
  C3, amended. \<^verbatim>\<open>disconnect(id)\<close> on an id whose slot is free (out of range, never
  connected, or already disconnected) raises the not-connected error, calls nothing in
  the C-API and leaves the registry unchanged. So a second \<^verbatim>\<open>disconnect(id)\<close> right
  after a successful one changes nothing in the registry, but it is reported to the
  caller as an error.
\<close>

theorem disconnect_again_raises:
  "(\<not> occupied r i \<longrightarrow>
      pybullet_disconnectPhysicsServer c r i = (Raise BulletNotConnectedError, r, [])) \<and>
   (wf_registry r \<and> fst (pybullet_disconnectPhysicsServer c r i) = Return () \<longrightarrow>
      pybullet_disconnectPhysicsServer c'
        (fst (snd (pybullet_disconnectPhysicsServer c r i))) i =
      (Raise BulletNotConnectedError,
       fst (snd (pybullet_disconnectPhysicsServer c r i)), []))"
  by (simp add: disconnect_free after_disconnect_free)

theorem disconnect_again_raises_witness:
  "\<not> occupied initial_registry 7 \<and>
   pybullet_disconnectPhysicsServer True initial_registry 7 =
     (Raise BulletNotConnectedError, initial_registry, []) \<and>
   wf_registry (run [Connect stock_build (handshake_ok 1) eCONNECT_DIRECT]) \<and>
   fst (pybullet_disconnectPhysicsServer True
          (run [Connect stock_build (handshake_ok 1) eCONNECT_DIRECT]) 0) = Return () \<and>
   pybullet_disconnectPhysicsServer True
     (fst (snd (pybullet_disconnectPhysicsServer True
        (run [Connect stock_build (handshake_ok 1) eCONNECT_DIRECT]) 0))) 0 =
     (Raise BulletNotConnectedError, initial_registry, [])"
proof -
  let ?r = "run [Connect stock_build (handshake_ok 1) eCONNECT_DIRECT]"
  have w: "wf_registry ?r" using wf_run_connect_direct [of 0] by simp
  have d: "pybullet_disconnectPhysicsServer True ?r 0 =
      (Return (), initial_registry, [CanSubmitCommand 1, DisconnectSharedMemory 1])"
    using disconnect_connected_direct [of 0] by simp
  show ?thesis
    using w d free_initial [of 7]
      disconnect_again_raises [of initial_registry 7 True]
      disconnect_again_raises [of ?r 0 True True]
    by simp
qed

subsection \<open>A successful connect\<close>

lemma connect_switch_cases:
  "connect_switch b m h = Inr (sm, p, tr) \<Longrightarrow>
     (sm = h \<and> p = None \<and> tr = [CreateAndConnect m]) \<or>
     (sm = 0 \<and> p = Some (BulletError GRPCNotEnabled) \<and> tr = [])"
  by (simp add: connect_switch_def split: if_splits)

lemma first_free_from_range:
  "0 \<le> first_free_from clients i \<Longrightarrow>
     first_free_from clients i < int MAX_PHYSICS_CLIENTS \<and>
     int i \<le> first_free_from clients i \<and>
     clients ! nat (first_free_from clients i) = 0 \<and>
     (\<forall>j. i \<le> j \<and> j < nat (first_free_from clients i) \<longrightarrow> clients ! j \<noteq> 0)"
  using first_free_from_spec [of clients i] by auto

lemma first_free_from_neg:
  "first_free_from clients i < 0 \<longleftrightarrow> first_free_from clients i = -1"
  using first_free_from_spec [of clients i] by auto

lemma connect_success:
  assumes "fst (pybullet_connectPhysicsServer b env r m) = Return i" and "0 \<le> i"
  shows "pybullet_connectPhysicsServer b env r m =
           (Return i,
            (store_slot r (nat i) (created env) m)
              \<lparr>sNumPhysicsClients := sNumPhysicsClients r + 1\<rparr>,
            [CreateAndConnect m, CanSubmitCommand (created env),
             SubmitClientCommandAndWaitStatus (created env) SyncBodyInfoCommand,
             SubmitClientCommandAndWaitStatus (created env) SyncUserDataCommand])"
    and "i = first_free_from (sPhysicsClients1 r) 0"
    and "created env \<noteq> 0" and "can_submit env"
    and "body_info_status env = CMD_SYNC_BODY_INFO_COMPLETED"
    and "user_data_status env = CMD_SYNC_USER_DATA_COMPLETED"
    and "sNumPhysicsClients r < int MAX_PHYSICS_CLIENTS"
  using assms
  by (auto simp: pybullet_connectPhysicsServer_def Let_def returning_def
      split: if_splits sum.splits prod.splits option.splits dest!: connect_switch_cases)

lemma connect_pending:
  "fst (pybullet_connectPhysicsServer b env r m) = ReturnPending i e \<Longrightarrow> i = -1"
  by (auto simp: pybullet_connectPhysicsServer_def Let_def returning_def
      split: if_splits sum.splits prod.splits option.splits dest!: connect_switch_cases)


text \<open>
  C8. A \<^verbatim>\<open>connect\<close> that hands a valid id (a non-negative index) to the caller has
  made exactly these calls, in this order: the transport constructor, the probe, the
  synchronize-body-info exchange and the synchronize-user-data exchange, and both
  statuses were the expected completion tags. A value returned with an exception
  pending is never an id.
\<close>

theorem connect_handshake_order:
  "(fst (pybullet_connectPhysicsServer b env r m) = Return i \<and> 0 \<le> i \<longrightarrow>
      snd (snd (pybullet_connectPhysicsServer b env r m)) =
        [CreateAndConnect m, CanSubmitCommand (created env),
         SubmitClientCommandAndWaitStatus (created env) SyncBodyInfoCommand,
         SubmitClientCommandAndWaitStatus (created env) SyncUserDataCommand] \<and>
      body_info_status env = CMD_SYNC_BODY_INFO_COMPLETED \<and>
      user_data_status env = CMD_SYNC_USER_DATA_COMPLETED \<and>
      created env \<noteq> 0) \<and>
   (\<forall>e. fst (pybullet_connectPhysicsServer b env r m) = ReturnPending i e \<longrightarrow> i = -1)"
proof (intro conjI impI allI)
  assume a: "fst (pybullet_connectPhysicsServer b env r m) = Return i \<and> 0 \<le> i"
  then have s: "fst (pybullet_connectPhysicsServer b env r m) = Return i" and p: "0 \<le> i"
    by simp_all
  show "snd (snd (pybullet_connectPhysicsServer b env r m)) =
        [CreateAndConnect m, CanSubmitCommand (created env),
         SubmitClientCommandAndWaitStatus (created env) SyncBodyInfoCommand,
         SubmitClientCommandAndWaitStatus (created env) SyncUserDataCommand]"
    using connect_success(1) [OF s p] by simp
  show "body_info_status env = CMD_SYNC_BODY_INFO_COMPLETED"
    using connect_success(5) [OF s p] .
  show "user_data_status env = CMD_SYNC_USER_DATA_COMPLETED"
    using connect_success(6) [OF s p] .
  show "created env \<noteq> 0"
    using connect_success(3) [OF s p] .
next
  fix e
  assume "fst (pybullet_connectPhysicsServer b env r m) = ReturnPending i e"
  then show "i = -1" by (rule connect_pending)
qed

theorem connect_handshake_order_witness:
  "fst (pybullet_connectPhysicsServer stock_build (handshake_ok 1) initial_registry
          eCONNECT_DIRECT) = Return 0 \<and>
   snd (snd (pybullet_connectPhysicsServer stock_build (handshake_ok 1) initial_registry
          eCONNECT_DIRECT)) =
     [CreateAndConnect eCONNECT_DIRECT, CanSubmitCommand 1,
      SubmitClientCommandAndWaitStatus 1 SyncBodyInfoCommand,
      SubmitClientCommandAndWaitStatus 1 SyncUserDataCommand]"
proof -
  have s: "fst (pybullet_connectPhysicsServer stock_build (handshake_ok 1) initial_registry
          eCONNECT_DIRECT) = Return 0"
    by (simp add: connect_direct_initial)
  show ?thesis
    using s connect_handshake_order [of stock_build "handshake_ok 1" initial_registry
        eCONNECT_DIRECT 0]
    by (simp add: handshake_ok_def)
qed

subsection \<open>A failed handshake\<close>

lemma update_restore: "xs ! i = v \<Longrightarrow> (xs[i := w])[i := v] = xs"
  using list_update_id [of xs i] by simp

text \<open>
  What a failed handshake leaves behind, in general: the two tables as before when the
  freed cell of the method table was 0 before, and the counter raised by two.
\<close>

lemma handshake_failure_effect:
  assumes "sNumPhysicsClients r < int MAX_PHYSICS_CLIENTS"
    and "\<not> (m = eCONNECT_GUI \<and> gui_open_from (sPhysicsClientsGUI r) 0)"
    and "connect_switch b m (created env) = Inr (created env, None, [CreateAndConnect m])"
    and "created env \<noteq> 0" and "can_submit env"
    and "0 \<le> first_free_from (sPhysicsClients1 r) 0"
    and "body_info_status env \<noteq> CMD_SYNC_BODY_INFO_COMPLETED \<or>
         user_data_status env \<noteq> CMD_SYNC_USER_DATA_COMPLETED"
  shows "fst (pybullet_connectPhysicsServer b env r m) = Return (-1)"
    and "sPhysicsClients1 (fst (snd (pybullet_connectPhysicsServer b env r m))) =
           sPhysicsClients1 r"
    and "sNumPhysicsClients (fst (snd (pybullet_connectPhysicsServer b env r m))) =
           sNumPhysicsClients r + 2"
    and "last (snd (snd (pybullet_connectPhysicsServer b env r m))) =
           DisconnectSharedMemory (created env)"
proof -
  let ?f = "first_free_from (sPhysicsClients1 r) 0"
  have z: "sPhysicsClients1 r ! nat ?f = 0"
    using first_free_from_range [OF assms(6)] by simp
  show "fst (pybullet_connectPhysicsServer b env r m) = Return (-1)"
    using assms by (auto simp: pybullet_connectPhysicsServer_def Let_def)
  show "sPhysicsClients1 (fst (snd (pybullet_connectPhysicsServer b env r m))) =
           sPhysicsClients1 r"
    using assms z
    by (auto simp: pybullet_connectPhysicsServer_def Let_def store_slot_def clear_slot_def
        update_restore [of _ _ 0, simplified])
  show "sNumPhysicsClients (fst (snd (pybullet_connectPhysicsServer b env r m))) =
           sNumPhysicsClients r + 2"
    using assms
    by (auto simp: pybullet_connectPhysicsServer_def Let_def store_slot_def clear_slot_def)
  show "last (snd (snd (pybullet_connectPhysicsServer b env r m))) =
           DisconnectSharedMemory (created env)"
    using assms by (auto simp: pybullet_connectPhysicsServer_def Let_def)
qed

text \<open>
  C1 (the code departs from the claim). On the empty registry, a DIRECT connect whose
  transport opens and answers the probe, but whose body-info status is not the expected
  tag, returns -1, disconnects the transport and clears the slot again, but leaves
  \<^verbatim>\<open>sNumPhysicsClients\<close> at 2, not at 0: the failure branch increments the counter a
  second time where it should undo the first increment.
\<close>

theorem failed_handshake_leaks_count:
  "pybullet_connectPhysicsServer stock_build
     \<lparr> created = 1, can_submit = True, body_info_status = CMD_OTHER_STATUS 0,
       user_data_status = CMD_SYNC_USER_DATA_COMPLETED \<rparr>
     initial_registry eCONNECT_DIRECT =
   (Return (-1),
    initial_registry\<lparr>sNumPhysicsClients := 2\<rparr>,
    [CreateAndConnect eCONNECT_DIRECT, CanSubmitCommand 1,
     SubmitClientCommandAndWaitStatus 1 SyncBodyInfoCommand,
     DisconnectSharedMemory 1]) \<and>
   initial_registry\<lparr>sNumPhysicsClients := 2\<rparr> \<noteq> initial_registry"
  using MAX_pos
  by (simp add: pybullet_connectPhysicsServer_def connect_switch_def initial_registry_def
      eCONNECT_defs returning_def first_free_initial store_slot_def clear_slot_def
      Let_def stock_build_def replicate_update_same)

subsection \<open>The invariant of reachable registries\<close>

lemma num_occupied_clear:
  assumes "wf_registry r" and "occupied r i"
  shows "num_occupied (clear_slot r (nat i)) + 1 = num_occupied r"
proof -
  from assms(2) have "0 \<le> i" "i < int MAX_PHYSICS_CLIENTS" by (simp_all add: occupied_def)
  then have "nat i < MAX_PHYSICS_CLIENTS" by linarith
  with assms(1) have l: "nat i < length (sPhysicsClients1 r)"
    by (simp add: wf_registry_def)
  from assms(2) have n: "sPhysicsClients1 r ! nat i \<noteq> 0" by (simp add: occupied_def)
  show ?thesis
    using length_filter_update [OF l, of "\<lambda>sm. sm \<noteq> 0" 0] n
    by (simp add: num_occupied_def clear_slot_def)
qed

lemma num_occupied_store:
  assumes "wf_registry r" and "f < MAX_PHYSICS_CLIENTS" and "sPhysicsClients1 r ! f = 0"
    and "sm \<noteq> 0"
  shows "num_occupied (store_slot r f sm m) = num_occupied r + 1"
proof -
  from assms have l: "f < length (sPhysicsClients1 r)" by (simp add: wf_registry_def)
  show ?thesis
    using length_filter_update [OF l, of "\<lambda>sm. sm \<noteq> 0" sm] assms(3,4)
    by (simp add: num_occupied_def store_slot_def)
qed

lemma num_occupied_counter [simp]:
  "num_occupied (r\<lparr>sNumPhysicsClients := n\<rparr>) = num_occupied r"
  by (simp add: num_occupied_def)

lemma getPhysicsClient_registry_cases:
  "fst (snd (getPhysicsClient c r i)) = r \<or>
   (occupied r i \<and>
    fst (snd (getPhysicsClient c r i)) =
      (clear_slot r (nat i))\<lparr>sNumPhysicsClients := sNumPhysicsClients r - 1\<rparr>)"
  by (cases c; cases "occupied r i")
     (simp_all add: getPhysicsClient_free getPhysicsClient_live getPhysicsClient_broken)

lemma evict_inv:
  assumes "registry_inv r" and "occupied r i"
  shows "registry_inv ((clear_slot r (nat i))\<lparr>sNumPhysicsClients := sNumPhysicsClients r - 1\<rparr>)"
  using assms num_occupied_clear [of r i]
  by (simp add: registry_inv_def wf_counter wf_clear_slot)

lemma getPhysicsClient_inv:
  "registry_inv r \<Longrightarrow> registry_inv (fst (snd (getPhysicsClient c r i)))"
  using getPhysicsClient_registry_cases [of c r i] by (auto simp: evict_inv)

lemma disconnect_inv:
  assumes "registry_inv r"
  shows "registry_inv (fst (snd (pybullet_disconnectPhysicsServer c r i)))"
proof (cases "fst (pybullet_disconnectPhysicsServer c r i) = Return ()")
  case True
  then have "occupied r i" and c by (simp_all add: disconnect_ok_iff)
  then show ?thesis using assms by (simp add: disconnect_ok_registry evict_inv)
next
  case False
  then show ?thesis
    using assms by (simp add: disconnect_raise_registry getPhysicsClient_inv)
qed

lemma connect_registry_cases:
  "fst (snd (pybullet_connectPhysicsServer b env r m)) = r \<or>
   (0 \<le> first_free_from (sPhysicsClients1 r) 0 \<and> created env \<noteq> 0 \<and>
    fst (snd (pybullet_connectPhysicsServer b env r m)) =
      (store_slot r (nat (first_free_from (sPhysicsClients1 r) 0)) (created env) m)
        \<lparr>sNumPhysicsClients := sNumPhysicsClients r + 1\<rparr>) \<or>
   (0 \<le> first_free_from (sPhysicsClients1 r) 0 \<and>
    fst (snd (pybullet_connectPhysicsServer b env r m)) =
      r\<lparr>sPhysicsClientsGUI :=
           (sPhysicsClientsGUI r)[nat (first_free_from (sPhysicsClients1 r) 0) := 0],
         sNumPhysicsClients := sNumPhysicsClients r + 2\<rparr>)"
proof -
  let ?f = "first_free_from (sPhysicsClients1 r) 0"
  have z: "0 \<le> ?f \<Longrightarrow> (sPhysicsClients1 r)[nat ?f := 0] = sPhysicsClients1 r"
    using first_free_from_range [of "sPhysicsClients1 r" 0] list_update_id [of "sPhysicsClients1 r" "nat ?f"]
    by simp
  show ?thesis
    using z
    by (auto simp: pybullet_connectPhysicsServer_def Let_def store_slot_def clear_slot_def
        split: sum.splits prod.splits dest!: connect_switch_cases)
qed

lemma connect_inv:
  assumes "registry_inv r"
  shows "registry_inv (fst (snd (pybullet_connectPhysicsServer b env r m)))"
proof -
  let ?f = "first_free_from (sPhysicsClients1 r) 0"
  let ?r' = "fst (snd (pybullet_connectPhysicsServer b env r m))"
  from assms have w: "wf_registry r" and n: "int (num_occupied r) \<le> sNumPhysicsClients r"
    by (simp_all add: registry_inv_def)
  consider (same) "?r' = r"
    | (stored) "0 \<le> ?f" "created env \<noteq> 0"
        "?r' = (store_slot r (nat ?f) (created env) m)
                 \<lparr>sNumPhysicsClients := sNumPhysicsClients r + 1\<rparr>"
    | (failed) "0 \<le> ?f"
        "?r' = r\<lparr>sPhysicsClientsGUI := (sPhysicsClientsGUI r)[nat ?f := 0],
                  sNumPhysicsClients := sNumPhysicsClients r + 2\<rparr>"
    using connect_registry_cases [of b env r m] by blast
  then show ?thesis
  proof cases
    case same
    with assms show ?thesis by simp
  next
    case stored
    have "?f < int MAX_PHYSICS_CLIENTS" and z: "sPhysicsClients1 r ! nat ?f = 0"
      using first_free_from_range [OF stored(1)] by simp_all
    with stored(1) have l: "nat ?f < MAX_PHYSICS_CLIENTS" by linarith
    have "num_occupied (store_slot r (nat ?f) (created env) m) = num_occupied r + 1"
      using w l z stored(2) by (rule num_occupied_store)
    with w n show ?thesis
      by (simp add: stored(3) registry_inv_def wf_counter wf_store_slot)
  next
    case failed
    with w n show ?thesis
      by (simp add: registry_inv_def wf_registry_def num_occupied_def)
  qed
qed

lemma exec_inv: "registry_inv r \<Longrightarrow> registry_inv (exec r call)"
  by (cases call)
     (simp_all add: connect_inv disconnect_inv stepSimulation_registry isConnected_registry
        getConnectionInfo_registry getPhysicsClient_inv)

lemma foldl_exec_inv: "registry_inv r \<Longrightarrow> registry_inv (foldl exec r calls)"
  by (induction calls arbitrary: r) (simp_all add: exec_inv)

lemma initial_inv: "registry_inv initial_registry"
  using wf_initial by (simp add: registry_inv_def num_occupied_def initial_registry_def)

lemma run_inv: "registry_inv (run calls)"
  unfolding run_def by (rule foldl_exec_inv [OF initial_inv])

subsection \<open>Full registries and the number of valid ids\<close>

lemma filled_upto_nth:
  assumes "filled_upto n r" and "n \<le> MAX_PHYSICS_CLIENTS"
  shows "j < n \<Longrightarrow> sPhysicsClients1 r ! j \<noteq> 0"
    and "n \<le> j \<Longrightarrow> j < MAX_PHYSICS_CLIENTS \<Longrightarrow> sPhysicsClients1 r ! j = 0"
proof -
  from assms have l: "length (sPhysicsClients1 r) = MAX_PHYSICS_CLIENTS"
    and t: "list_all (\<lambda>sm. sm \<noteq> 0) (take n (sPhysicsClients1 r))"
    and d: "list_all (\<lambda>sm. sm = 0) (drop n (sPhysicsClients1 r))"
    by (simp_all add: filled_upto_def wf_registry_def)
  show "sPhysicsClients1 r ! j \<noteq> 0" if "j < n"
  proof -
    from that assms(2) l have "j < length (take n (sPhysicsClients1 r))" by simp
    with t have "take n (sPhysicsClients1 r) ! j \<noteq> 0" by (simp add: list_all_length)
    with that show ?thesis by simp
  qed
  show "sPhysicsClients1 r ! j = 0" if "n \<le> j" "j < MAX_PHYSICS_CLIENTS"
  proof -
    from that l have "j - n < length (drop n (sPhysicsClients1 r))" by simp
    with d have "drop n (sPhysicsClients1 r) ! (j - n) = 0" by (simp add: list_all_length)
    with that l show ?thesis by simp
  qed
qed

lemma filled_upto_first_free:
  assumes "filled_upto n r" and "n < MAX_PHYSICS_CLIENTS"
  shows "first_free_from (sPhysicsClients1 r) 0 = int n"
proof -
  have le: "n \<le> MAX_PHYSICS_CLIENTS" using assms(2) by simp
  have zn: "sPhysicsClients1 r ! n = 0"
    using filled_upto_nth(2) [OF assms(1) le, of n] assms(2) by simp
  from first_free_from_spec [of "sPhysicsClients1 r" 0]
  show ?thesis
  proof
    assume "first_free_from (sPhysicsClients1 r) 0 = - 1 \<and>
      (\<forall>j. 0 \<le> j \<and> j < MAX_PHYSICS_CLIENTS \<longrightarrow> sPhysicsClients1 r ! j \<noteq> 0)"
    with zn assms(2) show ?thesis by blast
  next
    assume "\<exists>k. first_free_from (sPhysicsClients1 r) 0 = int k \<and> 0 \<le> k \<and>
      k < MAX_PHYSICS_CLIENTS \<and> sPhysicsClients1 r ! k = 0 \<and>
      (\<forall>j. 0 \<le> j \<and> j < k \<longrightarrow> sPhysicsClients1 r ! j \<noteq> 0)"
    then obtain k where k: "first_free_from (sPhysicsClients1 r) 0 = int k"
      "k < MAX_PHYSICS_CLIENTS" "sPhysicsClients1 r ! k = 0"
      "\<forall>j. 0 \<le> j \<and> j < k \<longrightarrow> sPhysicsClients1 r ! j \<noteq> 0" by blast
    have "\<not> k < n" using filled_upto_nth(1) [OF assms(1) le, of k] k(3) by blast
    moreover have "\<not> n < k" using k(4) zn by blast
    ultimately have "k = n" by simp
    with k(1) show ?thesis by simp
  qed
qed

lemma filled_upto_connect_direct:
  assumes "filled_upto n r" and "n < MAX_PHYSICS_CLIENTS"
  shows "pybullet_connectPhysicsServer stock_build (handshake_ok (Suc h)) r eCONNECT_DIRECT =
           (Return (int n),
            (store_slot r n (Suc h) eCONNECT_DIRECT)
              \<lparr>sNumPhysicsClients := sNumPhysicsClients r + 1\<rparr>,
            [CreateAndConnect eCONNECT_DIRECT, CanSubmitCommand (Suc h),
             SubmitClientCommandAndWaitStatus (Suc h) SyncBodyInfoCommand,
             SubmitClientCommandAndWaitStatus (Suc h) SyncUserDataCommand])"
proof -
  from assms have c: "sNumPhysicsClients r < int MAX_PHYSICS_CLIENTS"
    by (simp add: filled_upto_def)
  have s: "connect_switch stock_build eCONNECT_DIRECT (Suc h) =
      Inr (Suc h, None, [CreateAndConnect eCONNECT_DIRECT])"
    by (simp add: connect_switch_def eCONNECT_defs)
  have g: "eCONNECT_DIRECT \<noteq> eCONNECT_GUI" by (simp add: eCONNECT_defs)
  show ?thesis
    using c s g filled_upto_first_free [OF assms]
    by (simp add: pybullet_connectPhysicsServer_def handshake_ok_def returning_def Let_def)
qed

lemma filled_upto_step:
  assumes "filled_upto n r" and "n < MAX_PHYSICS_CLIENTS"
  shows "filled_upto (Suc n)
           (exec r (Connect stock_build (handshake_ok (Suc h)) eCONNECT_DIRECT))"
proof -
  let ?cs = "sPhysicsClients1 r"
  from assms have l: "length ?cs = MAX_PHYSICS_CLIENTS" and w: "wf_registry r"
    and cn: "sNumPhysicsClients r = int n"
    and t: "list_all (\<lambda>sm. sm \<noteq> 0) (take n ?cs)"
    and d: "list_all (\<lambda>sm. sm = 0) (drop n ?cs)"
    by (simp_all add: filled_upto_def wf_registry_def)
  have nl: "n < length ?cs" using l assms(2) by simp
  have t': "take (Suc n) (?cs[n := Suc h]) = take n ?cs @ [Suc h]"
    using nl by (simp add: take_Suc_conv_app_nth)
  have d': "drop (Suc n) (?cs[n := Suc h]) = drop (Suc n) ?cs"
    by simp
  have "drop n ?cs = ?cs ! n # drop (Suc n) ?cs"
    using nl by (simp add: Cons_nth_drop_Suc)
  with d have dd: "list_all (\<lambda>sm. sm = 0) (drop (Suc n) ?cs)"
    by simp
  have w': "wf_registry (store_slot r n (Suc h) eCONNECT_DIRECT)"
    using w by (rule wf_store_slot)
  have cs': "sPhysicsClients1 (store_slot r n (Suc h) eCONNECT_DIRECT) = ?cs[n := Suc h]"
    by (simp add: store_slot_def)
  show ?thesis
    using w' cn t dd t' d'
    by (simp add: filled_upto_connect_direct [OF assms] filled_upto_def wf_counter cs')
qed

lemma filled_upto_replicate:
  "filled_upto n r \<Longrightarrow> n + k \<le> MAX_PHYSICS_CLIENTS \<Longrightarrow>
     filled_upto (n + k)
       (foldl exec r (replicate k (Connect stock_build (handshake_ok (Suc h)) eCONNECT_DIRECT)))"
proof (induction k arbitrary: n r)
  case 0
  then show ?case by simp
next
  case (Suc k)
  from Suc.prems have "n < MAX_PHYSICS_CLIENTS" by simp
  with Suc.prems(1) have "filled_upto (Suc n)
      (exec r (Connect stock_build (handshake_ok (Suc h)) eCONNECT_DIRECT))"
    by (rule filled_upto_step)
  from Suc.IH [OF this] Suc.prems(2) show ?case by simp
qed

lemma filled_upto_initial: "filled_upto 0 initial_registry"
  using wf_initial by (simp add: filled_upto_def initial_registry_def list_all_length)

lemma filled_upto_full:
  assumes "filled_upto MAX_PHYSICS_CLIENTS r"
  shows "num_occupied r = MAX_PHYSICS_CLIENTS"
proof -
  from assms have l: "length (sPhysicsClients1 r) = MAX_PHYSICS_CLIENTS"
    and t: "list_all (\<lambda>sm. sm \<noteq> 0) (take MAX_PHYSICS_CLIENTS (sPhysicsClients1 r))"
    unfolding filled_upto_def wf_registry_def by blast+
  from l have "take MAX_PHYSICS_CLIENTS (sPhysicsClients1 r) = sPhysicsClients1 r" by simp
  with t have "list_all (\<lambda>sm. sm \<noteq> 0) (sPhysicsClients1 r)" by simp
  then have "filter (\<lambda>sm. sm \<noteq> 0) (sPhysicsClients1 r) = sPhysicsClients1 r"
    by (simp add: list_all_iff)
  with l show ?thesis by (simp add: num_occupied_def)
qed

lemma run_fill:
  "num_occupied (run (replicate MAX_PHYSICS_CLIENTS
      (Connect stock_build (handshake_ok (Suc h)) eCONNECT_DIRECT))) = MAX_PHYSICS_CLIENTS"
  using filled_upto_replicate [OF filled_upto_initial, of MAX_PHYSICS_CLIENTS h]
  by (simp add: run_def filled_upto_full)

lemma full_counter:
  assumes "num_occupied (run calls) = MAX_PHYSICS_CLIENTS"
  shows "int MAX_PHYSICS_CLIENTS \<le> sNumPhysicsClients (run calls)"
proof -
  have "int (num_occupied (run calls)) \<le> sNumPhysicsClients (run calls)"
    using run_inv [of calls] by (simp add: registry_inv_def)
  with assms show ?thesis by simp
qed

text \<open>
  C5, as stated, fails: on the registry that 1024 successful DIRECT connects have
  filled, the next \<^verbatim>\<open>connect\<close> does not return an invalid id. It raises the error
  and returns nothing; \<open>-1\<close>, the invalid id that the other failure paths return, is not
  what the caller gets.
\<close>

theorem full_registry_no_id_counterexample:
  "num_occupied (run (replicate MAX_PHYSICS_CLIENTS
      (Connect stock_build (handshake_ok 1) eCONNECT_DIRECT))) = MAX_PHYSICS_CLIENTS \<and>
   fst (pybullet_connectPhysicsServer stock_build (handshake_ok 2)
     (run (replicate MAX_PHYSICS_CLIENTS
        (Connect stock_build (handshake_ok 1) eCONNECT_DIRECT))) eCONNECT_DIRECT) =
     Raise (BulletError ExceedingMaximumConnections) \<and>
   fst (pybullet_connectPhysicsServer stock_build (handshake_ok 2)
     (run (replicate MAX_PHYSICS_CLIENTS
        (Connect stock_build (handshake_ok 1) eCONNECT_DIRECT))) eCONNECT_DIRECT) \<noteq>
     Return (-1)"
proof -
  have f: "num_occupied (run (replicate MAX_PHYSICS_CLIENTS
      (Connect stock_build (handshake_ok 1) eCONNECT_DIRECT))) = MAX_PHYSICS_CLIENTS"
    using run_fill [of 0] by simp
  show ?thesis
    using f full_counter [OF f] by (simp add: pybullet_connectPhysicsServer_def)
qed

text \<open>
  C5, amended. When every slot of the table is occupied, in any registry that a
  sequence of calls has reached, the next \<^verbatim>\<open>connect\<close> raises the error "Exceeding
  maximum number of physics connections" before it does anything else: no transport is
  created, the registry is unchanged, and no id, valid or invalid, is returned to the
  caller.
\<close>

theorem connect_on_full_registry:
  "num_occupied (run calls) = MAX_PHYSICS_CLIENTS \<Longrightarrow>
     pybullet_connectPhysicsServer b env (run calls) m =
       (Raise (BulletError ExceedingMaximumConnections), run calls, []) \<and>
     (\<forall>v. fst (pybullet_connectPhysicsServer b env (run calls) m) \<noteq> Return v) \<and>
     (\<forall>v e. fst (pybullet_connectPhysicsServer b env (run calls) m) \<noteq> ReturnPending v e)"
proof -
  assume "num_occupied (run calls) = MAX_PHYSICS_CLIENTS"
  then have "int MAX_PHYSICS_CLIENTS \<le> sNumPhysicsClients (run calls)"
    by (rule full_counter)
  then show ?thesis by (simp add: pybullet_connectPhysicsServer_def)
qed

theorem connect_on_full_registry_witness:
  "num_occupied (run (replicate MAX_PHYSICS_CLIENTS
      (Connect stock_build (handshake_ok 1) eCONNECT_DIRECT))) = MAX_PHYSICS_CLIENTS \<and>
   pybullet_connectPhysicsServer stock_build (handshake_ok 2)
     (run (replicate MAX_PHYSICS_CLIENTS
        (Connect stock_build (handshake_ok 1) eCONNECT_DIRECT))) eCONNECT_DIRECT =
     (Raise (BulletError ExceedingMaximumConnections),
      run (replicate MAX_PHYSICS_CLIENTS
        (Connect stock_build (handshake_ok 1) eCONNECT_DIRECT)), [])"
proof -
  have f: "num_occupied (run (replicate MAX_PHYSICS_CLIENTS
      (Connect stock_build (handshake_ok 1) eCONNECT_DIRECT))) = MAX_PHYSICS_CLIENTS"
    using run_fill [of 0] by simp
  show ?thesis
    using f connect_on_full_registry [OF f, of stock_build "handshake_ok 2" eCONNECT_DIRECT]
    by simp
qed

lemma card_occupied:
  assumes "wf_registry r"
  shows "finite {i. occupied r i}" and "card {i. occupied r i} = num_occupied r"
proof -
  let ?cs = "sPhysicsClients1 r"
  let ?J = "{j. j < length ?cs \<and> ?cs ! j \<noteq> 0}"
  from assms have l: "length ?cs = MAX_PHYSICS_CLIENTS" by (simp add: wf_registry_def)
  have eq: "{i. occupied r i} = int ` ?J"
  proof (intro set_eqI iffI)
    fix i assume "i \<in> {i. occupied r i}"
    then have o: "0 \<le> i" "i < int MAX_PHYSICS_CLIENTS" "?cs ! nat i \<noteq> 0"
      by (simp_all add: occupied_def)
    then have "nat i \<in> ?J" using l by simp
    moreover have "i = int (nat i)" using o(1) by simp
    ultimately show "i \<in> int ` ?J" by (rule rev_image_eqI)
  next
    fix i assume "i \<in> int ` ?J"
    then obtain j where "i = int j" "j < length ?cs" "?cs ! j \<noteq> 0" by blast
    then show "i \<in> {i. occupied r i}" using l by (simp add: occupied_def)
  qed
  have fin: "finite ?J" by simp
  show "finite {i. occupied r i}" unfolding eq using fin by (rule finite_imageI)
  have "card (int ` ?J) = card ?J" by (rule card_image) (simp add: inj_on_def)
  also have "\<dots> = length (filter (\<lambda>sm. sm \<noteq> 0) ?cs)"
    by (simp add: length_filter_conv_card)
  finally show "card {i. occupied r i} = num_occupied r"
    by (simp add: eq num_occupied_def)
qed

lemma resolvable_occupied:
  "{i. \<exists>c. fst (getPhysicsClient c r i) \<noteq> 0} = {i. occupied r i}"
  by (auto simp: getPhysicsClient_handle simp del: neq0_conv)

lemma num_occupied_le: "wf_registry r \<Longrightarrow> num_occupied r \<le> MAX_PHYSICS_CLIENTS"
  using length_filter_le [of "\<lambda>sm. sm \<noteq> 0" "sPhysicsClients1 r"]
  by (simp add: num_occupied_def wf_registry_def)

text \<open>
  C4. After any sequence of calls (connect, disconnect, and the operations that go
  through the lookup), the ids that \<^verbatim>\<open>getPhysicsClient\<close> can resolve form a finite
  set; their number is the number of non-null handles in the table, and it is at most
  \<^verbatim>\<open>MAX_PHYSICS_CLIENTS\<close>, which is 1024.
\<close>

theorem valid_ids_bounded:
  "finite {i. \<exists>c. fst (getPhysicsClient c (run calls) i) \<noteq> 0} \<and>
   card {i. \<exists>c. fst (getPhysicsClient c (run calls) i) \<noteq> 0} = num_occupied (run calls) \<and>
   num_occupied (run calls) \<le> MAX_PHYSICS_CLIENTS \<and>
   MAX_PHYSICS_CLIENTS = 1024"
proof -
  have w: "wf_registry (run calls)" using run_inv [of calls] by (simp add: registry_inv_def)
  have e: "{i. \<exists>c. fst (getPhysicsClient c (run calls) i) \<noteq> 0} = {i. occupied (run calls) i}"
    by (rule resolvable_occupied)
  show ?thesis
    unfolding e using card_occupied [OF w] num_occupied_le [OF w]
    by (simp add: MAX_PHYSICS_CLIENTS_def)
qed

subsection \<open>Interactive connections\<close>

lemma num_gui_counter [simp]: "num_gui (r\<lparr>sNumPhysicsClients := n\<rparr>) = num_gui r"
  by (simp add: num_gui_def)

lemma num_gui_update_other:
  assumes "m \<noteq> eCONNECT_GUI"
  shows "length (filter (\<lambda>x. x = eCONNECT_GUI) (gui[i := m])) \<le>
         length (filter (\<lambda>x. x = eCONNECT_GUI) gui)"
proof (cases "i < length gui")
  case True
  show ?thesis
    using length_filter_update [OF True, of "\<lambda>x. x = eCONNECT_GUI" m] assms
    by (simp split: if_splits)
next
  case False
  then have "length gui \<le> i" by simp
  then show ?thesis by (simp add: list_update_beyond)
qed

lemma no_gui_open_filter:
  assumes "\<not> gui_open_from gui 0" and "length gui = MAX_PHYSICS_CLIENTS"
  shows "filter (\<lambda>x. x = eCONNECT_GUI) gui = []"
proof -
  have "\<forall>j. j < MAX_PHYSICS_CLIENTS \<longrightarrow> gui ! j \<noteq> eCONNECT_GUI"
    using assms(1) by (simp add: gui_open_from_iff)
  with assms(2) have "\<forall>x \<in> set gui. x \<noteq> eCONNECT_GUI"
    by (auto simp: in_set_conv_nth)
  then show ?thesis by (simp add: filter_empty_conv)
qed

lemma num_gui_update_first:
  assumes "\<not> gui_open_from gui 0" and "length gui = MAX_PHYSICS_CLIENTS"
  shows "length (filter (\<lambda>x. x = eCONNECT_GUI) (gui[i := m])) \<le> 1"
proof (cases "i < length gui")
  case True
  show ?thesis
    using length_filter_update [OF True, of "\<lambda>x. x = eCONNECT_GUI" m]
      no_gui_open_filter [OF assms]
    by (simp split: if_splits)
next
  case False
  then have "length gui \<le> i" by simp
  then show ?thesis using no_gui_open_filter [OF assms] by (simp add: list_update_beyond)
qed

lemma zero_not_gui: "0 \<noteq> eCONNECT_GUI"
  by (simp add: eCONNECT_defs)

lemma num_gui_clear: "num_gui (clear_slot r i) \<le> num_gui r"
  using num_gui_update_other [OF zero_not_gui, of "sPhysicsClientsGUI r" i]
  by (simp add: num_gui_def clear_slot_def)

lemma getPhysicsClient_num_gui:
  "num_gui (fst (snd (getPhysicsClient c r i))) \<le> num_gui r"
  using getPhysicsClient_registry_cases [of c r i] num_gui_clear [of r "nat i"] by auto

lemma disconnect_num_gui:
  "num_gui (fst (snd (pybullet_disconnectPhysicsServer c r i))) \<le> num_gui r"
proof (cases "fst (pybullet_disconnectPhysicsServer c r i) = Return ()")
  case True
  then have "occupied r i" and c by (simp_all add: disconnect_ok_iff)
  then show ?thesis using num_gui_clear [of r "nat i"] by (simp add: disconnect_ok_registry)
next
  case False
  then show ?thesis by (simp add: disconnect_raise_registry getPhysicsClient_num_gui)
qed

lemma connect_changes_unchecked:
  "fst (snd (pybullet_connectPhysicsServer b env r m)) \<noteq> r \<Longrightarrow>
     \<not> (m = eCONNECT_GUI \<and> gui_open_from (sPhysicsClientsGUI r) 0)"
  by (auto simp: pybullet_connectPhysicsServer_def)

lemma connect_num_gui:
  assumes "wf_registry r" and "num_gui r \<le> 1"
  shows "num_gui (fst (snd (pybullet_connectPhysicsServer b env r m))) \<le> 1"
proof -
  let ?f = "first_free_from (sPhysicsClients1 r) 0"
  let ?r' = "fst (snd (pybullet_connectPhysicsServer b env r m))"
  from assms(1) have l: "length (sPhysicsClientsGUI r) = MAX_PHYSICS_CLIENTS"
    by (simp add: wf_registry_def)
  consider (same) "?r' = r"
    | (stored) "?r' \<noteq> r"
        "?r' = (store_slot r (nat ?f) (created env) m)
                 \<lparr>sNumPhysicsClients := sNumPhysicsClients r + 1\<rparr>"
    | (failed)
        "?r' = r\<lparr>sPhysicsClientsGUI := (sPhysicsClientsGUI r)[nat ?f := 0],
                  sNumPhysicsClients := sNumPhysicsClients r + 2\<rparr>"
    using connect_registry_cases [of b env r m] by blast
  then show ?thesis
  proof cases
    case same
    with assms(2) show ?thesis by simp
  next
    case stored
    show ?thesis
    proof (cases "m = eCONNECT_GUI")
      case True
      with connect_changes_unchecked [OF stored(1)]
      have "\<not> gui_open_from (sPhysicsClientsGUI r) 0" by simp
      from num_gui_update_first [OF this l, of "nat ?f" m] show ?thesis
        by (simp add: stored(2) num_gui_def store_slot_def)
    next
      case False
      from num_gui_update_other [OF this, of "sPhysicsClientsGUI r" "nat ?f"] assms(2)
      show ?thesis by (simp add: stored(2) num_gui_def store_slot_def)
    qed
  next
    case failed
    from num_gui_update_other [OF zero_not_gui, of "sPhysicsClientsGUI r" "nat ?f"] assms(2)
    show ?thesis by (simp add: failed num_gui_def)
  qed
qed

lemma exec_num_gui:
  assumes "wf_registry r" and "num_gui r \<le> 1"
  shows "num_gui (exec r call) \<le> 1"
proof (cases call)
  case (Connect b env m)
  with connect_num_gui [OF assms, of b env m] show ?thesis by simp
next
  case (Disconnect c i)
  with assms(2) disconnect_num_gui [of c r i] show ?thesis by simp
next
  case (StepSimulation c c2 s i)
  with assms(2) getPhysicsClient_num_gui [of c r i] show ?thesis
    by (simp add: stepSimulation_registry)
next
  case (IsConnected c c2 i)
  with assms(2) getPhysicsClient_num_gui [of c r i] show ?thesis
    by (simp add: isConnected_registry)
next
  case (GetConnectionInfo c c2 i)
  with assms(2) getPhysicsClient_num_gui [of c r i] show ?thesis
    by (simp add: getConnectionInfo_registry)
qed

lemma foldl_exec_num_gui:
  "registry_inv r \<Longrightarrow> num_gui r \<le> 1 \<Longrightarrow> num_gui (foldl exec r calls) \<le> 1"
proof (induction calls arbitrary: r)
  case Nil
  then show ?case by simp
next
  case (Cons call calls)
  from Cons.prems(1) have "wf_registry r" by (simp add: registry_inv_def)
  then have "num_gui (exec r call) \<le> 1" using Cons.prems(2) by (rule exec_num_gui)
  moreover have "registry_inv (exec r call)" using Cons.prems(1) by (rule exec_inv)
  ultimately show ?case using Cons.IH by simp
qed

lemma run_num_gui: "num_gui (run calls) \<le> 1"
  unfolding run_def
  by (rule foldl_exec_num_gui [OF initial_inv])
     (simp add: num_gui_def initial_registry_def eCONNECT_defs)

lemma connect_gui_rejected:
  assumes "occupied r k"
    and "sPhysicsClientsGUI r ! nat k = eCONNECT_GUI \<or>
         sPhysicsClientsGUI r ! nat k = eCONNECT_GUI_SERVER"
  shows "pybullet_connectPhysicsServer b env r eCONNECT_GUI =
           (Raise (BulletError
              (if sNumPhysicsClients r < int MAX_PHYSICS_CLIENTS then OnlyOneGUIConnection
               else ExceedingMaximumConnections)), r, [])"
proof -
  from assms(1) have "0 \<le> k" "k < int MAX_PHYSICS_CLIENTS" by (simp_all add: occupied_def)
  then have "nat k < MAX_PHYSICS_CLIENTS" by linarith
  with assms(2) have "gui_open_from (sPhysicsClientsGUI r) 0"
    unfolding gui_open_from_iff by blast
  then show ?thesis by (simp add: pybullet_connectPhysicsServer_def)
qed


text \<open>The registry after a GUI connection, and after a GUI_SERVER connection next to it.\<close>

lemma gui_closed_initial: "\<not> gui_open_from (replicate MAX_PHYSICS_CLIENTS 0) 0"
  by (simp add: gui_open_from_iff eCONNECT_defs)

lemma run_connect_gui:
  "run [Connect stock_build (handshake_ok (Suc h)) eCONNECT_GUI] =
     \<lparr> sPhysicsClients1 = (replicate MAX_PHYSICS_CLIENTS 0)[0 := Suc h],
       sPhysicsClientsGUI = (replicate MAX_PHYSICS_CLIENTS 0)[0 := eCONNECT_GUI],
       sNumPhysicsClients = 1 \<rparr>"
  using MAX_pos
  by (simp add: run_def pybullet_connectPhysicsServer_def connect_switch_def
      initial_registry_def handshake_ok_def returning_def first_free_initial store_slot_def
      Let_def gui_closed_initial)

lemma first_free_second:
  "first_free_from ((replicate MAX_PHYSICS_CLIENTS 0)[0 := Suc h]) 0 = 1"
proof -
  let ?cs = "(replicate MAX_PHYSICS_CLIENTS 0)[0 := Suc h]"
  have m: "0 < MAX_PHYSICS_CLIENTS" "0 + 1 < MAX_PHYSICS_CLIENTS"
    by (simp_all add: MAX_PHYSICS_CLIENTS_def)
  have "?cs ! 0 \<noteq> 0" using m(1) by simp
  with m(1) have "first_free_from ?cs 0 = first_free_from ?cs (0 + 1)"
    by (rule first_free_from_skip)
  also have "\<dots> = int (0 + 1)"
    using m(2) by (rule first_free_from_hit) (simp add: MAX_PHYSICS_CLIENTS_def)
  finally show ?thesis by simp
qed

lemma connect_gui_server_after_gui:
  "pybullet_connectPhysicsServer stock_build (handshake_ok (Suc h'))
     (run [Connect stock_build (handshake_ok (Suc h)) eCONNECT_GUI]) eCONNECT_GUI_SERVER =
   (Return 1,
    \<lparr> sPhysicsClients1 = (replicate MAX_PHYSICS_CLIENTS 0)[0 := Suc h, 1 := Suc h'],
      sPhysicsClientsGUI =
        (replicate MAX_PHYSICS_CLIENTS 0)[0 := eCONNECT_GUI, 1 := eCONNECT_GUI_SERVER],
      sNumPhysicsClients = 2 \<rparr>,
    [CreateAndConnect eCONNECT_GUI_SERVER, CanSubmitCommand (Suc h'),
     SubmitClientCommandAndWaitStatus (Suc h') SyncBodyInfoCommand,
     SubmitClientCommandAndWaitStatus (Suc h') SyncUserDataCommand])"
proof -
  have g: "eCONNECT_GUI_SERVER \<noteq> eCONNECT_GUI" by (simp add: eCONNECT_defs)
  have s: "connect_switch stock_build eCONNECT_GUI_SERVER (Suc h') =
      Inr (Suc h', None, [CreateAndConnect eCONNECT_GUI_SERVER])"
    by (simp add: connect_switch_def eCONNECT_defs)
  have c: "(1::int) < int MAX_PHYSICS_CLIENTS" by (simp add: MAX_PHYSICS_CLIENTS_def)
  show ?thesis
    unfolding run_connect_gui using g s c
    by (simp add: pybullet_connectPhysicsServer_def handshake_ok_def
        returning_def first_free_second store_slot_def Let_def)
qed

lemma foldl_connect_keeps_slot:
  "sPhysicsClients1 r ! j \<noteq> 0 \<Longrightarrow> j < MAX_PHYSICS_CLIENTS \<Longrightarrow>
     sPhysicsClients1 (foldl exec r (replicate n (Connect b env m))) ! j =
       sPhysicsClients1 r ! j \<and>
     sPhysicsClientsGUI (foldl exec r (replicate n (Connect b env m))) ! j =
       sPhysicsClientsGUI r ! j"
proof (induction n arbitrary: r)
  case 0
  then show ?case by simp
next
  case (Suc n)
  let ?r1 = "exec r (Connect b env m)"
  have k: "sPhysicsClients1 ?r1 ! j = sPhysicsClients1 r ! j"
    "sPhysicsClientsGUI ?r1 ! j = sPhysicsClientsGUI r ! j"
    using connect_keeps_occupied [OF Suc.prems, of b env m] by simp_all
  with Suc.prems(1) have "sPhysicsClients1 ?r1 ! j \<noteq> 0" by simp
  from Suc.IH [OF this Suc.prems(2)] k show ?case by simp
qed

text \<open>
  The registry after one GUI connection and 1023 DIRECT connections: it is full, and
  its slot 0 still holds the GUI connection.
\<close>

lemma full_with_gui:
  "sNumPhysicsClients (run (Connect stock_build (handshake_ok 1) eCONNECT_GUI #
      replicate 1023 (Connect stock_build (handshake_ok 2) eCONNECT_DIRECT))) =
     int MAX_PHYSICS_CLIENTS"
  "occupied (run (Connect stock_build (handshake_ok 1) eCONNECT_GUI #
      replicate 1023 (Connect stock_build (handshake_ok 2) eCONNECT_DIRECT))) 0"
  "sPhysicsClientsGUI (run (Connect stock_build (handshake_ok 1) eCONNECT_GUI #
      replicate 1023 (Connect stock_build (handshake_ok 2) eCONNECT_DIRECT))) ! 0 =
     eCONNECT_GUI"
proof -
  let ?g = "run [Connect stock_build (handshake_ok 1) eCONNECT_GUI]"
  let ?d = "Connect stock_build (handshake_ok 2) eCONNECT_DIRECT"
  let ?full = "run (Connect stock_build (handshake_ok 1) eCONNECT_GUI # replicate 1023 ?d)"
  have e: "?full = foldl exec ?g (replicate 1023 ?d)" by (simp add: run_def)
  have gs: "?g = \<lparr> sPhysicsClients1 = (replicate MAX_PHYSICS_CLIENTS 0)[0 := 1],
       sPhysicsClientsGUI = (replicate MAX_PHYSICS_CLIENTS 0)[0 := eCONNECT_GUI],
       sNumPhysicsClients = 1 \<rparr>"
    using run_connect_gui [of 0] by simp
  have m: "0 < MAX_PHYSICS_CLIENTS" by (rule MAX_pos)
  have f1: "filled_upto 1 ?g"
    unfolding gs filled_upto_def wf_registry_def using m
    by (auto simp: list_all_length nth_list_update)
  have "filled_upto (1 + 1023) (foldl exec ?g (replicate 1023 ?d))"
    using filled_upto_replicate [OF f1, of 1023 1]
    by (simp add: MAX_PHYSICS_CLIENTS_def numeral_2_eq_2)
  then have "filled_upto MAX_PHYSICS_CLIENTS ?full"
    unfolding e by (simp add: MAX_PHYSICS_CLIENTS_def)
  then show "sNumPhysicsClients ?full = int MAX_PHYSICS_CLIENTS"
    by (simp add: filled_upto_def)
  have g0: "sPhysicsClients1 ?g ! 0 \<noteq> 0" "sPhysicsClientsGUI ?g ! 0 = eCONNECT_GUI"
    unfolding gs using m by simp_all
  note keep = foldl_connect_keeps_slot [OF g0(1) m, of 1023 stock_build "handshake_ok 2"
      eCONNECT_DIRECT]
  from keep g0 show "occupied ?full 0"
    unfolding e using m by (simp add: occupied_def)
  from keep g0 show "sPhysicsClientsGUI ?full ! 0 = eCONNECT_GUI"
    unfolding e by simp
qed


text \<open>
  C2, as stated, fails in two ways. With a GUI connection open in slot 0,
  \<^verbatim>\<open>connect(GUI_SERVER)\<close> is not checked at all: it succeeds with id 1, and two
  interactive connections are open. And with a GUI connection open in a full registry,
  \<^verbatim>\<open>connect(GUI)\<close> fails on the capacity test, which comes first, not on the
  exclusivity test.
\<close>

theorem interactive_exclusivity_counterexample:
  "occupied (run [Connect stock_build (handshake_ok 1) eCONNECT_GUI]) 0 \<and>
   sPhysicsClientsGUI (run [Connect stock_build (handshake_ok 1) eCONNECT_GUI]) ! 0 =
     eCONNECT_GUI \<and>
   fst (pybullet_connectPhysicsServer stock_build (handshake_ok 2)
          (run [Connect stock_build (handshake_ok 1) eCONNECT_GUI]) eCONNECT_GUI_SERVER) =
     Return 1 \<and>
   sPhysicsClientsGUI (fst (snd (pybullet_connectPhysicsServer stock_build (handshake_ok 2)
          (run [Connect stock_build (handshake_ok 1) eCONNECT_GUI]) eCONNECT_GUI_SERVER))) ! 0 =
     eCONNECT_GUI \<and>
   sPhysicsClientsGUI (fst (snd (pybullet_connectPhysicsServer stock_build (handshake_ok 2)
          (run [Connect stock_build (handshake_ok 1) eCONNECT_GUI]) eCONNECT_GUI_SERVER))) ! 1 =
     eCONNECT_GUI_SERVER \<and>
   occupied (fst (snd (pybullet_connectPhysicsServer stock_build (handshake_ok 2)
          (run [Connect stock_build (handshake_ok 1) eCONNECT_GUI]) eCONNECT_GUI_SERVER))) 0 \<and>
   occupied (fst (snd (pybullet_connectPhysicsServer stock_build (handshake_ok 2)
          (run [Connect stock_build (handshake_ok 1) eCONNECT_GUI]) eCONNECT_GUI_SERVER))) 1 \<and>
   occupied (run (Connect stock_build (handshake_ok 1) eCONNECT_GUI #
      replicate 1023 (Connect stock_build (handshake_ok 2) eCONNECT_DIRECT))) 0 \<and>
   sPhysicsClientsGUI (run (Connect stock_build (handshake_ok 1) eCONNECT_GUI #
      replicate 1023 (Connect stock_build (handshake_ok 2) eCONNECT_DIRECT))) ! 0 =
     eCONNECT_GUI \<and>
   fst (pybullet_connectPhysicsServer stock_build (handshake_ok 3)
          (run (Connect stock_build (handshake_ok 1) eCONNECT_GUI #
             replicate 1023 (Connect stock_build (handshake_ok 2) eCONNECT_DIRECT)))
          eCONNECT_GUI) =
     Raise (BulletError ExceedingMaximumConnections)"
proof -
  let ?g = "run [Connect stock_build (handshake_ok 1) eCONNECT_GUI]"
  have gs: "?g = \<lparr> sPhysicsClients1 = (replicate MAX_PHYSICS_CLIENTS 0)[0 := 1],
       sPhysicsClientsGUI = (replicate MAX_PHYSICS_CLIENTS 0)[0 := eCONNECT_GUI],
       sNumPhysicsClients = 1 \<rparr>"
    using run_connect_gui [of 0] by simp
  have g: "occupied ?g 0" "sPhysicsClientsGUI ?g ! 0 = eCONNECT_GUI"
    unfolding gs by (simp_all add: occupied_def MAX_PHYSICS_CLIENTS_def)
  have s: "pybullet_connectPhysicsServer stock_build (handshake_ok 2) ?g eCONNECT_GUI_SERVER =
      (Return 1,
       \<lparr> sPhysicsClients1 = (replicate MAX_PHYSICS_CLIENTS 0)[0 := 1, 1 := 2],
         sPhysicsClientsGUI =
           (replicate MAX_PHYSICS_CLIENTS 0)[0 := eCONNECT_GUI, 1 := eCONNECT_GUI_SERVER],
         sNumPhysicsClients = 2 \<rparr>,
       [CreateAndConnect eCONNECT_GUI_SERVER, CanSubmitCommand 2,
        SubmitClientCommandAndWaitStatus 2 SyncBodyInfoCommand,
        SubmitClientCommandAndWaitStatus 2 SyncUserDataCommand])"
    using connect_gui_server_after_gui [of 1 0] by (simp add: numeral_2_eq_2)
  have t: "sPhysicsClientsGUI (fst (snd (pybullet_connectPhysicsServer stock_build
        (handshake_ok 2) ?g eCONNECT_GUI_SERVER))) ! 0 = eCONNECT_GUI"
    "sPhysicsClientsGUI (fst (snd (pybullet_connectPhysicsServer stock_build
        (handshake_ok 2) ?g eCONNECT_GUI_SERVER))) ! 1 = eCONNECT_GUI_SERVER"
    "occupied (fst (snd (pybullet_connectPhysicsServer stock_build
        (handshake_ok 2) ?g eCONNECT_GUI_SERVER))) 0"
    "occupied (fst (snd (pybullet_connectPhysicsServer stock_build
        (handshake_ok 2) ?g eCONNECT_GUI_SERVER))) 1"
    unfolding s by (simp_all add: occupied_def MAX_PHYSICS_CLIENTS_def)
  have c: "fst (pybullet_connectPhysicsServer stock_build (handshake_ok 3)
          (run (Connect stock_build (handshake_ok 1) eCONNECT_GUI #
             replicate 1023 (Connect stock_build (handshake_ok 2) eCONNECT_DIRECT)))
          eCONNECT_GUI) = Raise (BulletError ExceedingMaximumConnections)"
    using full_with_gui(1) by (simp add: pybullet_connectPhysicsServer_def)
  show ?thesis
    using g s t c full_with_gui(2,3) by simp
qed

text \<open>
  C2, amended. In every registry that a sequence of calls reaches, at most one cell of
  the method table holds GUI. While a GUI or GUI_SERVER connection is open, every
  \<^verbatim>\<open>connect(GUI)\<close> raises an error, calls nothing in the C-API and leaves the
  registry unchanged, so the lookup of the open id answers as before: the error is
  "Only one local in-process GUI/GUI_SERVER connection allowed" when the counter is
  below \<^verbatim>\<open>MAX_PHYSICS_CLIENTS\<close>, and "Exceeding maximum number of physics
  connections" otherwise. Nothing is said here about \<^verbatim>\<open>connect(GUI_SERVER)\<close>.
\<close>

theorem connect_gui_exclusive:
  "num_gui (run calls) \<le> 1 \<and>
   (occupied r k \<and>
    (sPhysicsClientsGUI r ! nat k = eCONNECT_GUI \<or>
     sPhysicsClientsGUI r ! nat k = eCONNECT_GUI_SERVER) \<longrightarrow>
      pybullet_connectPhysicsServer b env r eCONNECT_GUI =
        (Raise (BulletError
           (if sNumPhysicsClients r < int MAX_PHYSICS_CLIENTS then OnlyOneGUIConnection
            else ExceedingMaximumConnections)), r, []) \<and>
      (\<forall>c. getPhysicsClient c
             (fst (snd (pybullet_connectPhysicsServer b env r eCONNECT_GUI))) k =
           getPhysicsClient c r k))"
proof (intro conjI impI)
  show "num_gui (run calls) \<le> 1" by (rule run_num_gui)
next
  assume a: "occupied r k \<and>
    (sPhysicsClientsGUI r ! nat k = eCONNECT_GUI \<or>
     sPhysicsClientsGUI r ! nat k = eCONNECT_GUI_SERVER)"
  then have o: "occupied r k" and g: "sPhysicsClientsGUI r ! nat k = eCONNECT_GUI \<or>
     sPhysicsClientsGUI r ! nat k = eCONNECT_GUI_SERVER" by simp_all
  show e: "pybullet_connectPhysicsServer b env r eCONNECT_GUI =
        (Raise (BulletError
           (if sNumPhysicsClients r < int MAX_PHYSICS_CLIENTS then OnlyOneGUIConnection
            else ExceedingMaximumConnections)), r, [])"
    using o g by (rule connect_gui_rejected)
  show "\<forall>c. getPhysicsClient c
             (fst (snd (pybullet_connectPhysicsServer b env r eCONNECT_GUI))) k =
           getPhysicsClient c r k"
    unfolding e by simp
qed

theorem connect_gui_exclusive_witness:
  "num_gui (run [Connect stock_build (handshake_ok 1) eCONNECT_GUI,
                 Connect stock_build (handshake_ok 2) eCONNECT_GUI]) \<le> 1 \<and>
   occupied (run [Connect stock_build (handshake_ok 1) eCONNECT_GUI]) 0 \<and>
   sPhysicsClientsGUI (run [Connect stock_build (handshake_ok 1) eCONNECT_GUI]) ! nat 0 =
     eCONNECT_GUI \<and>
   pybullet_connectPhysicsServer stock_build (handshake_ok 2)
     (run [Connect stock_build (handshake_ok 1) eCONNECT_GUI]) eCONNECT_GUI =
     (Raise (BulletError OnlyOneGUIConnection),
      run [Connect stock_build (handshake_ok 1) eCONNECT_GUI], []) \<and>
   getPhysicsClient True
     (fst (snd (pybullet_connectPhysicsServer stock_build (handshake_ok 2)
        (run [Connect stock_build (handshake_ok 1) eCONNECT_GUI]) eCONNECT_GUI))) 0 =
     (1, run [Connect stock_build (handshake_ok 1) eCONNECT_GUI], [CanSubmitCommand 1]) \<and>
   pybullet_connectPhysicsServer stock_build (handshake_ok 3)
     (run (Connect stock_build (handshake_ok 1) eCONNECT_GUI #
        replicate 1023 (Connect stock_build (handshake_ok 2) eCONNECT_DIRECT)))
     eCONNECT_GUI =
     (Raise (BulletError ExceedingMaximumConnections),
      run (Connect stock_build (handshake_ok 1) eCONNECT_GUI #
        replicate 1023 (Connect stock_build (handshake_ok 2) eCONNECT_DIRECT)), [])"
proof -
  let ?g = "run [Connect stock_build (handshake_ok 1) eCONNECT_GUI]"
  let ?full = "run (Connect stock_build (handshake_ok 1) eCONNECT_GUI #
        replicate 1023 (Connect stock_build (handshake_ok 2) eCONNECT_DIRECT))"
  have gs: "?g = \<lparr> sPhysicsClients1 = (replicate MAX_PHYSICS_CLIENTS 0)[0 := 1],
       sPhysicsClientsGUI = (replicate MAX_PHYSICS_CLIENTS 0)[0 := eCONNECT_GUI],
       sNumPhysicsClients = 1 \<rparr>"
    using run_connect_gui [of 0] by simp
  have g: "occupied ?g 0" "sPhysicsClientsGUI ?g ! nat 0 = eCONNECT_GUI"
    "sNumPhysicsClients ?g < int MAX_PHYSICS_CLIENTS" "sPhysicsClients1 ?g ! 0 = 1"
    unfolding gs by (simp_all add: occupied_def MAX_PHYSICS_CLIENTS_def)
  have l: "getPhysicsClient True ?g 0 = (1, ?g, [CanSubmitCommand 1])"
    using getPhysicsClient_live [OF g(1)] g(4) by simp
  have f: "occupied ?full 0" "sPhysicsClientsGUI ?full ! nat 0 = eCONNECT_GUI"
    "\<not> sNumPhysicsClients ?full < int MAX_PHYSICS_CLIENTS"
    using full_with_gui by simp_all
  show ?thesis
    using g l f
      connect_gui_exclusive [of "[Connect stock_build (handshake_ok 1) eCONNECT_GUI,
                 Connect stock_build (handshake_ok 2) eCONNECT_GUI]"
        ?g 0 stock_build "handshake_ok 2"]
      connect_gui_exclusive [of "[]" ?full 0 stock_build "handshake_ok 3"]
    by simp
qed

subsection \<open>The shutdown function\<close>

text \<open>
  The shutdown function is a teardown of everything, not an eviction: it asks no
  transport whether it is alive. After it no id resolves; the method table is as before.
\<close>

lemma exit_from_effect:
  "length (sPhysicsClients1 r) = MAX_PHYSICS_CLIENTS \<Longrightarrow>
     length (sPhysicsClients1 (fst (exit_from r i))) = MAX_PHYSICS_CLIENTS \<and>
     sPhysicsClientsGUI (fst (exit_from r i)) = sPhysicsClientsGUI r \<and>
     (\<forall>j. j < MAX_PHYSICS_CLIENTS \<longrightarrow>
        sPhysicsClients1 (fst (exit_from r i)) ! j =
          (if i \<le> j then 0 else sPhysicsClients1 r ! j))"
proof (induction r i rule: exit_from.induct)
  case (1 r i)
  show ?case
  proof (cases "i < MAX_PHYSICS_CLIENTS")
    case False
    then show ?thesis using "1.prems" by (subst (1 2 3) exit_from.simps) simp
  next
    case inr: True
    show ?thesis
    proof (cases "sPhysicsClients1 r ! i \<noteq> 0")
      case True
      let ?r1 = "r\<lparr> sPhysicsClients1 := (sPhysicsClients1 r)[i := 0],
                     sNumPhysicsClients := sNumPhysicsClients r - 1 \<rparr>"
      have e: "fst (exit_from r i) = fst (exit_from ?r1 (i + 1))"
        using inr True by (subst exit_from.simps) (simp split: prod.splits)
      have l1: "length (sPhysicsClients1 ?r1) = MAX_PHYSICS_CLIENTS"
        using "1.prems" by simp
      note IH = "1.IH"(1) [OF inr True l1]
      have "\<forall>j. j < MAX_PHYSICS_CLIENTS \<longrightarrow>
        sPhysicsClients1 (fst (exit_from ?r1 (i + 1))) ! j =
          (if i \<le> j then 0 else sPhysicsClients1 r ! j)"
      proof (intro allI impI)
        fix j assume j: "j < MAX_PHYSICS_CLIENTS"
        with IH have "sPhysicsClients1 (fst (exit_from ?r1 (i + 1))) ! j =
          (if i + 1 \<le> j then 0 else sPhysicsClients1 ?r1 ! j)" by blast
        then show "sPhysicsClients1 (fst (exit_from ?r1 (i + 1))) ! j =
          (if i \<le> j then 0 else sPhysicsClients1 r ! j)"
          using "1.prems" j by (cases "j = i") auto
      qed
      with IH show ?thesis unfolding e by simp
    next
      case False
      have e: "fst (exit_from r i) = fst (exit_from r (i + 1))"
        using inr False by (subst exit_from.simps) simp
      note IH = "1.IH"(2) [OF inr False "1.prems"]
      have "\<forall>j. j < MAX_PHYSICS_CLIENTS \<longrightarrow>
        sPhysicsClients1 (fst (exit_from r (i + 1))) ! j =
          (if i \<le> j then 0 else sPhysicsClients1 r ! j)"
      proof (intro allI impI)
        fix j assume j: "j < MAX_PHYSICS_CLIENTS"
        with IH have "sPhysicsClients1 (fst (exit_from r (i + 1))) ! j =
          (if i + 1 \<le> j then 0 else sPhysicsClients1 r ! j)" by blast
        then show "sPhysicsClients1 (fst (exit_from r (i + 1))) ! j =
          (if i \<le> j then 0 else sPhysicsClients1 r ! j)"
          using False by (cases "j = i") auto
      qed
      with IH show ?thesis unfolding e by simp
    qed
  qed
qed

lemma b3pybulletExitFunc_clears:
  assumes "wf_registry r"
  shows "\<not> occupied (fst (b3pybulletExitFunc r)) i"
    and "sPhysicsClientsGUI (fst (b3pybulletExitFunc r)) = sPhysicsClientsGUI r"
proof -
  from assms have l: "length (sPhysicsClients1 r) = MAX_PHYSICS_CLIENTS"
    by (simp add: wf_registry_def)
  note e = exit_from_effect [OF l, of 0]
  show "sPhysicsClientsGUI (fst (b3pybulletExitFunc r)) = sPhysicsClientsGUI r"
    using e by (simp add: b3pybulletExitFunc_def)
  show "\<not> occupied (fst (b3pybulletExitFunc r)) i"
  proof
    assume "occupied (fst (b3pybulletExitFunc r)) i"
    then have o: "0 \<le> i" "i < int MAX_PHYSICS_CLIENTS"
      "sPhysicsClients1 (fst (exit_from r 0)) ! nat i \<noteq> 0"
      by (simp_all add: occupied_def b3pybulletExitFunc_def)
    from o(1,2) have "nat i < MAX_PHYSICS_CLIENTS" by linarith
    with e have "sPhysicsClients1 (fst (exit_from r 0)) ! nat i = 0" by simp
    with o(3) show False by simp
  qed
qed

subsection \<open>The id of a new connection\<close>

lemma first_free_from_least:
  assumes "n < MAX_PHYSICS_CLIENTS" and "clients ! n = 0"
    and "\<forall>j. j < n \<longrightarrow> clients ! j \<noteq> 0"
  shows "first_free_from clients 0 = int n"
proof -
  from first_free_from_spec [of clients 0]
  show ?thesis
  proof
    assume "first_free_from clients 0 = - 1 \<and>
      (\<forall>j. 0 \<le> j \<and> j < MAX_PHYSICS_CLIENTS \<longrightarrow> clients ! j \<noteq> 0)"
    with assms(1,2) show ?thesis by blast
  next
    assume "\<exists>k. first_free_from clients 0 = int k \<and> 0 \<le> k \<and>
      k < MAX_PHYSICS_CLIENTS \<and> clients ! k = 0 \<and>
      (\<forall>j. 0 \<le> j \<and> j < k \<longrightarrow> clients ! j \<noteq> 0)"
    then obtain k where k: "first_free_from clients 0 = int k" "clients ! k = 0"
      "\<forall>j. 0 \<le> j \<and> j < k \<longrightarrow> clients ! j \<noteq> 0" by blast
    have "\<not> k < n" using assms(3) k(2) by blast
    moreover have "\<not> n < k" using k(3) assms(2) by blast
    ultimately have "k = n" by simp
    with k(1) show ?thesis by simp
  qed
qed

lemma connect_takes_least_free:
  assumes "n < MAX_PHYSICS_CLIENTS" and "sPhysicsClients1 r ! n = 0"
    and "\<forall>j. j < n \<longrightarrow> sPhysicsClients1 r ! j \<noteq> 0"
    and "connect_unobstructed b env r m"
  shows "pybullet_connectPhysicsServer b env r m =
           (Return (int n),
            (store_slot r n (created env) m)
              \<lparr>sNumPhysicsClients := sNumPhysicsClients r + 1\<rparr>,
            [CreateAndConnect m, CanSubmitCommand (created env),
             SubmitClientCommandAndWaitStatus (created env) SyncBodyInfoCommand,
             SubmitClientCommandAndWaitStatus (created env) SyncUserDataCommand])"
proof -
  have f: "first_free_from (sPhysicsClients1 r) 0 = int n"
    using assms(1-3) by (rule first_free_from_least)
  from assms(4) have u: "sNumPhysicsClients r < int MAX_PHYSICS_CLIENTS"
    "\<not> (m = eCONNECT_GUI \<and> gui_open_from (sPhysicsClientsGUI r) 0)"
    "connect_switch b m (created env) = Inr (created env, None, [CreateAndConnect m])"
    "created env \<noteq> 0" "can_submit env"
    "body_info_status env = CMD_SYNC_BODY_INFO_COMPLETED"
    "user_data_status env = CMD_SYNC_USER_DATA_COMPLETED"
    by (simp_all add: connect_unobstructed_def)
  show ?thesis
    using u f by (auto simp: pybullet_connectPhysicsServer_def returning_def Let_def)
qed

lemma connect_reuses_slot:
  assumes "wf_registry r" and "fst (pybullet_disconnectPhysicsServer c r k) = Return ()"
    and "\<forall>j. j < nat k \<longrightarrow> sPhysicsClients1 r ! j \<noteq> 0"
    and "connect_unobstructed b env (fst (snd (pybullet_disconnectPhysicsServer c r k))) m"
  shows "fst (pybullet_connectPhysicsServer b env
                (fst (snd (pybullet_disconnectPhysicsServer c r k))) m) = Return k"
proof -
  let ?r' = "fst (snd (pybullet_disconnectPhysicsServer c r k))"
  from assms(2) have o: "occupied r k" and c: c by (simp_all add: disconnect_ok_iff)
  from o have k: "0 \<le> k" "k < int MAX_PHYSICS_CLIENTS" by (simp_all add: occupied_def)
  then have kn: "nat k < MAX_PHYSICS_CLIENTS" by linarith
  have cl: "sPhysicsClients1 ?r' = (sPhysicsClients1 r)[nat k := 0]"
    using o c by (simp add: disconnect_ok_registry clear_slot_def)
  have z: "sPhysicsClients1 ?r' ! nat k = 0"
    using assms(1) kn by (simp add: cl wf_registry_def)
  have b: "\<forall>j. j < nat k \<longrightarrow> sPhysicsClients1 ?r' ! j \<noteq> 0"
  proof (intro allI impI)
    fix j assume j: "j < nat k"
    then have "nat k \<noteq> j" by simp
    then have "sPhysicsClients1 ?r' ! j = sPhysicsClients1 r ! j"
      unfolding cl by (rule nth_list_update_neq)
    with assms(3) j show "sPhysicsClients1 ?r' ! j \<noteq> 0" by simp
  qed
  show ?thesis
    using connect_takes_least_free [OF kn z b assms(4)] k(1) by simp
qed

text \<open>
  C9. Whenever the checks before and after the slot search let a \<^verbatim>\<open>connect\<close>
  through, it succeeds with the smallest index whose handle is null at the time of the
  call, and stores the new handle there: if slot \<open>n\<close> is free and every slot below it
  is occupied, the id is \<open>n\<close>. Conversely the id of any successful \<^verbatim>\<open>connect\<close> is
  such an index. On the empty registry that is 0; and after a successful
  \<^verbatim>\<open>disconnect(k)\<close> the next \<^verbatim>\<open>connect\<close> that is let through returns an id of
  at most \<open>k\<close>, and exactly \<open>k\<close> when every slot below \<open>k\<close> is occupied.
\<close>

theorem connect_returns_first_free:
  "(fst (pybullet_connectPhysicsServer b env r m) = Return i \<and> 0 \<le> i \<longrightarrow>
      i < int MAX_PHYSICS_CLIENTS \<and> sPhysicsClients1 r ! nat i = 0 \<and>
      (\<forall>j. j < nat i \<longrightarrow> sPhysicsClients1 r ! j \<noteq> 0)) \<and>
   (fst (pybullet_connectPhysicsServer b env initial_registry m) = Return i \<and> 0 \<le> i \<longrightarrow>
      i = 0) \<and>
   (wf_registry r \<and> fst (pybullet_disconnectPhysicsServer c r k) = Return () \<and>
    fst (pybullet_connectPhysicsServer b env
           (fst (snd (pybullet_disconnectPhysicsServer c r k))) m) = Return i \<and> 0 \<le> i \<longrightarrow>
      i \<le> k \<and> ((\<forall>j. j < nat k \<longrightarrow> sPhysicsClients1 r ! j \<noteq> 0) \<longrightarrow> i = k)) \<and>
   (n < MAX_PHYSICS_CLIENTS \<and> sPhysicsClients1 r ! n = 0 \<and>
    (\<forall>j. j < n \<longrightarrow> sPhysicsClients1 r ! j \<noteq> 0) \<and> connect_unobstructed b env r m \<longrightarrow>
      pybullet_connectPhysicsServer b env r m =
        (Return (int n),
         (store_slot r n (created env) m)
           \<lparr>sNumPhysicsClients := sNumPhysicsClients r + 1\<rparr>,
         [CreateAndConnect m, CanSubmitCommand (created env),
          SubmitClientCommandAndWaitStatus (created env) SyncBodyInfoCommand,
          SubmitClientCommandAndWaitStatus (created env) SyncUserDataCommand])) \<and>
   (connect_unobstructed b env initial_registry m \<longrightarrow>
      fst (pybullet_connectPhysicsServer b env initial_registry m) = Return 0) \<and>
   (wf_registry r \<and> fst (pybullet_disconnectPhysicsServer c r k) = Return () \<and>
    (\<forall>j. j < nat k \<longrightarrow> sPhysicsClients1 r ! j \<noteq> 0) \<and>
    connect_unobstructed b env (fst (snd (pybullet_disconnectPhysicsServer c r k))) m \<longrightarrow>
      fst (pybullet_connectPhysicsServer b env
             (fst (snd (pybullet_disconnectPhysicsServer c r k))) m) = Return k)"
proof (intro conjI impI)
  assume a: "fst (pybullet_connectPhysicsServer b env r m) = Return i \<and> 0 \<le> i"
  then have s: "fst (pybullet_connectPhysicsServer b env r m) = Return i" and p: "0 \<le> i"
    by simp_all
  have f: "i = first_free_from (sPhysicsClients1 r) 0"
    using connect_success(2) [OF s p] .
  from p f have "0 \<le> first_free_from (sPhysicsClients1 r) 0" by simp
  note first_free_from_range [OF this]
  with f show "i < int MAX_PHYSICS_CLIENTS" "sPhysicsClients1 r ! nat i = 0"
    "\<forall>j. j < nat i \<longrightarrow> sPhysicsClients1 r ! j \<noteq> 0"
    by simp_all
next
  assume a: "fst (pybullet_connectPhysicsServer b env initial_registry m) = Return i \<and> 0 \<le> i"
  then have "i = first_free_from (sPhysicsClients1 initial_registry) 0"
    using connect_success(2) [of b env initial_registry m i] by simp
  then show "i = 0"
    by (simp add: initial_registry_def first_free_initial)
next
  let ?r' = "fst (snd (pybullet_disconnectPhysicsServer c r k))"
  assume a: "wf_registry r \<and> fst (pybullet_disconnectPhysicsServer c r k) = Return () \<and>
    fst (pybullet_connectPhysicsServer b env ?r' m) = Return i \<and> 0 \<le> i"
  then have w: "wf_registry r" and d: "fst (pybullet_disconnectPhysicsServer c r k) = Return ()"
    and s: "fst (pybullet_connectPhysicsServer b env ?r' m) = Return i" and p: "0 \<le> i"
    by simp_all
  from d have o: "occupied r k" and c: c by (simp_all add: disconnect_ok_iff)
  from o have k: "0 \<le> k" "k < int MAX_PHYSICS_CLIENTS" by (simp_all add: occupied_def)
  have r': "?r' = (clear_slot r (nat k))\<lparr>sNumPhysicsClients := sNumPhysicsClients r - 1\<rparr>"
    using o c by (simp add: disconnect_ok_registry)
  have cl: "sPhysicsClients1 ?r' = (sPhysicsClients1 r)[nat k := 0]"
    by (simp add: r' clear_slot_def)
  have zk: "sPhysicsClients1 ?r' ! nat k = 0"
    using w k by (simp add: cl wf_registry_def)
  have f: "i = first_free_from (sPhysicsClients1 ?r') 0"
    using connect_success(2) [OF s p] .
  from p f have "0 \<le> first_free_from (sPhysicsClients1 ?r') 0" by simp
  note rg = first_free_from_range [OF this]
  have below: "\<forall>j. j < nat i \<longrightarrow> sPhysicsClients1 ?r' ! j \<noteq> 0"
    using rg f by simp
  have zi: "sPhysicsClients1 ?r' ! nat i = 0"
    using rg f by simp
  show "i \<le> k"
  proof (rule ccontr)
    assume "\<not> i \<le> k"
    with k have "nat k < nat i" by simp
    with below zk show False by blast
  qed
  show "i = k" if all: "\<forall>j. j < nat k \<longrightarrow> sPhysicsClients1 r ! j \<noteq> 0"
  proof (rule ccontr)
    assume ne: "i \<noteq> k"
    with \<open>i \<le> k\<close> p have lt: "nat i < nat k" by simp
    then have "nat k \<noteq> nat i" by linarith
    then have "sPhysicsClients1 ?r' ! nat i = sPhysicsClients1 r ! nat i"
      unfolding cl by (rule nth_list_update_neq)
    with zi have "sPhysicsClients1 r ! nat i = 0" by simp
    moreover from all lt have "sPhysicsClients1 r ! nat i \<noteq> 0" by blast
    ultimately show False by blast
  qed
next
  assume "n < MAX_PHYSICS_CLIENTS \<and> sPhysicsClients1 r ! n = 0 \<and>
    (\<forall>j. j < n \<longrightarrow> sPhysicsClients1 r ! j \<noteq> 0) \<and> connect_unobstructed b env r m"
  then have "n < MAX_PHYSICS_CLIENTS" "sPhysicsClients1 r ! n = 0"
    "\<forall>j. j < n \<longrightarrow> sPhysicsClients1 r ! j \<noteq> 0" "connect_unobstructed b env r m"
    by simp_all
  then show "pybullet_connectPhysicsServer b env r m =
        (Return (int n),
         (store_slot r n (created env) m)
           \<lparr>sNumPhysicsClients := sNumPhysicsClients r + 1\<rparr>,
         [CreateAndConnect m, CanSubmitCommand (created env),
          SubmitClientCommandAndWaitStatus (created env) SyncBodyInfoCommand,
          SubmitClientCommandAndWaitStatus (created env) SyncUserDataCommand])"
    by (rule connect_takes_least_free)
next
  assume u: "connect_unobstructed b env initial_registry m"
  have "sPhysicsClients1 initial_registry ! 0 = 0"
    using MAX_pos by (simp add: initial_registry_def)
  from connect_takes_least_free [OF MAX_pos this _ u]
  show "fst (pybullet_connectPhysicsServer b env initial_registry m) = Return 0" by simp
next
  assume "wf_registry r \<and> fst (pybullet_disconnectPhysicsServer c r k) = Return () \<and>
    (\<forall>j. j < nat k \<longrightarrow> sPhysicsClients1 r ! j \<noteq> 0) \<and>
    connect_unobstructed b env (fst (snd (pybullet_disconnectPhysicsServer c r k))) m"
  then have "wf_registry r" "fst (pybullet_disconnectPhysicsServer c r k) = Return ()"
    "\<forall>j. j < nat k \<longrightarrow> sPhysicsClients1 r ! j \<noteq> 0"
    "connect_unobstructed b env (fst (snd (pybullet_disconnectPhysicsServer c r k))) m"
    by simp_all
  then show "fst (pybullet_connectPhysicsServer b env
             (fst (snd (pybullet_disconnectPhysicsServer c r k))) m) = Return k"
    by (rule connect_reuses_slot)
qed

lemma unobstructed_direct:
  "sNumPhysicsClients r < int MAX_PHYSICS_CLIENTS \<Longrightarrow> h \<noteq> 0 \<Longrightarrow>
     connect_unobstructed stock_build (handshake_ok h) r eCONNECT_DIRECT"
  by (simp add: connect_unobstructed_def handshake_ok_def connect_switch_def eCONNECT_defs)

lemma filled_upto_connect:
  assumes "filled_upto n r" and "n < MAX_PHYSICS_CLIENTS" and "h \<noteq> 0"
  shows "fst (pybullet_connectPhysicsServer stock_build (handshake_ok h) r eCONNECT_DIRECT) =
           Return (int n)"
    and "filled_upto (Suc n) (exec r (Connect stock_build (handshake_ok h) eCONNECT_DIRECT))"
proof -
  from assms(3) obtain h' where h: "h = Suc h'" by (cases h) simp_all
  show "fst (pybullet_connectPhysicsServer stock_build (handshake_ok h) r eCONNECT_DIRECT) =
           Return (int n)"
    unfolding h by (simp add: filled_upto_connect_direct [OF assms(1,2)])
  show "filled_upto (Suc n) (exec r (Connect stock_build (handshake_ok h) eCONNECT_DIRECT))"
    unfolding h using assms(1,2) by (rule filled_upto_step)
qed

theorem connect_returns_first_free_witness:
  "fst (pybullet_connectPhysicsServer stock_build (handshake_ok 1) initial_registry
          eCONNECT_DIRECT) = Return 0 \<and>
   fst (pybullet_connectPhysicsServer stock_build (handshake_ok 2)
          (run [Connect stock_build (handshake_ok 1) eCONNECT_DIRECT]) eCONNECT_DIRECT) =
     Return 1 \<and>
   occupied (run [Connect stock_build (handshake_ok 1) eCONNECT_DIRECT,
                  Connect stock_build (handshake_ok 2) eCONNECT_DIRECT,
                  Connect stock_build (handshake_ok 3) eCONNECT_DIRECT]) 0 \<and>
   occupied (run [Connect stock_build (handshake_ok 1) eCONNECT_DIRECT,
                  Connect stock_build (handshake_ok 2) eCONNECT_DIRECT,
                  Connect stock_build (handshake_ok 3) eCONNECT_DIRECT]) 1 \<and>
   occupied (run [Connect stock_build (handshake_ok 1) eCONNECT_DIRECT,
                  Connect stock_build (handshake_ok 2) eCONNECT_DIRECT,
                  Connect stock_build (handshake_ok 3) eCONNECT_DIRECT]) 2 \<and>
   fst (pybullet_disconnectPhysicsServer True
          (run [Connect stock_build (handshake_ok 1) eCONNECT_DIRECT,
                Connect stock_build (handshake_ok 2) eCONNECT_DIRECT,
                Connect stock_build (handshake_ok 3) eCONNECT_DIRECT]) 1) = Return () \<and>
   occupied (fst (snd (pybullet_disconnectPhysicsServer True
          (run [Connect stock_build (handshake_ok 1) eCONNECT_DIRECT,
                Connect stock_build (handshake_ok 2) eCONNECT_DIRECT,
                Connect stock_build (handshake_ok 3) eCONNECT_DIRECT]) 1))) 0 \<and>
   \<not> occupied (fst (snd (pybullet_disconnectPhysicsServer True
          (run [Connect stock_build (handshake_ok 1) eCONNECT_DIRECT,
                Connect stock_build (handshake_ok 2) eCONNECT_DIRECT,
                Connect stock_build (handshake_ok 3) eCONNECT_DIRECT]) 1))) 1 \<and>
   occupied (fst (snd (pybullet_disconnectPhysicsServer True
          (run [Connect stock_build (handshake_ok 1) eCONNECT_DIRECT,
                Connect stock_build (handshake_ok 2) eCONNECT_DIRECT,
                Connect stock_build (handshake_ok 3) eCONNECT_DIRECT]) 1))) 2 \<and>
   fst (pybullet_connectPhysicsServer stock_build (handshake_ok 4)
          (fst (snd (pybullet_disconnectPhysicsServer True
             (run [Connect stock_build (handshake_ok 1) eCONNECT_DIRECT,
                   Connect stock_build (handshake_ok 2) eCONNECT_DIRECT,
                   Connect stock_build (handshake_ok 3) eCONNECT_DIRECT]) 1)))
          eCONNECT_DIRECT) = Return 1"
proof -
  let ?c1 = "Connect stock_build (handshake_ok 1) eCONNECT_DIRECT"
  let ?c2 = "Connect stock_build (handshake_ok 2) eCONNECT_DIRECT"
  let ?c3 = "Connect stock_build (handshake_ok 3) eCONNECT_DIRECT"
  let ?r1 = "run [?c1]"
  let ?r3 = "run [?c1, ?c2, ?c3]"
  let ?rh = "fst (snd (pybullet_disconnectPhysicsServer True ?r3 1))"
  have m: "0 < MAX_PHYSICS_CLIENTS" "Suc 0 < MAX_PHYSICS_CLIENTS"
    "Suc (Suc 0) < MAX_PHYSICS_CLIENTS" "Suc (Suc (Suc 0)) \<le> MAX_PHYSICS_CLIENTS"
    "Suc 0 \<le> MAX_PHYSICS_CLIENTS"
    by (simp_all add: MAX_PHYSICS_CLIENTS_def)
  have h: "(1::nat) \<noteq> 0" "(2::nat) \<noteq> 0" "(3::nat) \<noteq> 0" "(4::nat) \<noteq> 0" by simp_all
  note f1 = filled_upto_connect(2) [OF filled_upto_initial m(1) h(1)]
  note f2 = filled_upto_connect(2) [OF f1 m(2) h(2)]
  note f3 = filled_upto_connect(2) [OF f2 m(3) h(3)]
  have e1: "?r1 = exec initial_registry ?c1" by (simp add: run_def)
  have e3: "?r3 = exec (exec (exec initial_registry ?c1) ?c2) ?c3" by (simp add: run_def)
  have g1: "filled_upto (Suc 0) ?r1" unfolding e1 by (rule f1)
  have g3: "filled_upto (Suc (Suc (Suc 0))) ?r3" unfolding e3 by (rule f3)
  \<comment> \<open>the empty registry: id 0\<close>
  have u0: "connect_unobstructed stock_build (handshake_ok 1) initial_registry eCONNECT_DIRECT"
    by (rule unobstructed_direct) (simp_all add: initial_registry_def MAX_PHYSICS_CLIENTS_def)
  have a0: "fst (pybullet_connectPhysicsServer stock_build (handshake_ok 1) initial_registry
      eCONNECT_DIRECT) = Return 0"
    using u0
      connect_returns_first_free [where b = stock_build and env = "handshake_ok 1"
        and m = eCONNECT_DIRECT]
    by blast
  \<comment> \<open>slot 0 taken: id 1\<close>
  have n1: "sPhysicsClients1 ?r1 ! Suc 0 = 0"
    using filled_upto_nth(2) [OF g1 m(5), of "Suc 0"] m(2) by simp
  have b1: "\<forall>j. j < Suc 0 \<longrightarrow> sPhysicsClients1 ?r1 ! j \<noteq> 0"
    using filled_upto_nth(1) [OF g1 m(5)] by blast
  have u1: "connect_unobstructed stock_build (handshake_ok 2) ?r1 eCONNECT_DIRECT"
    using g1 by (intro unobstructed_direct) (simp_all add: filled_upto_def MAX_PHYSICS_CLIENTS_def)
  have "pybullet_connectPhysicsServer stock_build (handshake_ok 2) ?r1 eCONNECT_DIRECT =
      (Return (int (Suc 0)),
       (store_slot ?r1 (Suc 0) (created (handshake_ok 2)) eCONNECT_DIRECT)
         \<lparr>sNumPhysicsClients := sNumPhysicsClients ?r1 + 1\<rparr>,
       [CreateAndConnect eCONNECT_DIRECT, CanSubmitCommand (created (handshake_ok 2)),
        SubmitClientCommandAndWaitStatus (created (handshake_ok 2)) SyncBodyInfoCommand,
        SubmitClientCommandAndWaitStatus (created (handshake_ok 2)) SyncUserDataCommand])"
    using m(2) n1 b1 u1
      connect_returns_first_free [where b = stock_build and env = "handshake_ok 2"
        and r = ?r1 and m = eCONNECT_DIRECT and n = "Suc 0"]
    by blast
  then have a1: "fst (pybullet_connectPhysicsServer stock_build (handshake_ok 2) ?r1
      eCONNECT_DIRECT) = Return 1"
    by simp
  \<comment> \<open>three connections, the middle one disconnected: id 1 again\<close>
  have w3: "wf_registry ?r3" using g3 by (simp add: filled_upto_def)
  have c3: "sNumPhysicsClients ?r3 = 3" using g3 by (simp add: filled_upto_def)
  have nz: "sPhysicsClients1 ?r3 ! 0 \<noteq> 0" "sPhysicsClients1 ?r3 ! Suc 0 \<noteq> 0"
    "sPhysicsClients1 ?r3 ! Suc (Suc 0) \<noteq> 0"
    using filled_upto_nth(1) [OF g3 m(4)] by simp_all
  have o3: "occupied ?r3 0" "occupied ?r3 1" "occupied ?r3 2"
    using nz by (simp_all add: occupied_def MAX_PHYSICS_CLIENTS_def numeral_2_eq_2)
  have d: "fst (pybullet_disconnectPhysicsServer True ?r3 1) = Return ()"
    using o3(2) by (simp add: disconnect_ok_iff)
  have rh: "?rh = (clear_slot ?r3 (nat 1))\<lparr>sNumPhysicsClients := sNumPhysicsClients ?r3 - 1\<rparr>"
    using o3(2) by (rule disconnect_ok_registry)
  have l3: "length (sPhysicsClients1 ?r3) = MAX_PHYSICS_CLIENTS"
    using w3 by (simp add: wf_registry_def)
  have oh: "occupied ?rh 0" "\<not> occupied ?rh 1" "occupied ?rh 2"
    unfolding rh using nz l3
    by (simp_all add: occupied_def clear_slot_def MAX_PHYSICS_CLIENTS_def numeral_2_eq_2)
  have bh: "\<forall>j. j < nat 1 \<longrightarrow> sPhysicsClients1 ?r3 ! j \<noteq> 0"
    using nz(1) by simp
  have uh: "connect_unobstructed stock_build (handshake_ok 4) ?rh eCONNECT_DIRECT"
    unfolding rh using c3
    by (intro unobstructed_direct) (simp_all add: clear_slot_def MAX_PHYSICS_CLIENTS_def)
  have ah: "fst (pybullet_connectPhysicsServer stock_build (handshake_ok 4) ?rh
      eCONNECT_DIRECT) = Return 1"
    using w3 d bh uh
      connect_returns_first_free [where b = stock_build and env = "handshake_ok 4"
        and r = ?r3 and m = eCONNECT_DIRECT and c = True and k = 1]
    by blast
  show ?thesis
    using a0 a1 o3 d oh ah by blast
qed

end
